theory Spec2Isabelle
  imports Complex_Main "HOL-Library.AList" "HOL-Library.Log_Nat"
begin

section \<open>Data model (LCADashboard.tsx)\<close>

text \<open>
  The dashboard's input record and scenario record, as declared by the interfaces
  \<open>LCAInputs\<close> and \<open>LCAScenario\<close>. The string-literal union types of the source are
  datatypes. A TypeScript \<open>number\<close> is an IEEE-754 double. A finite double is a real
  number, so the fields are of type \<open>real\<close>; every arithmetic operation of the source
  rounds its exact result to the nearest double (section below), and a decimal literal
  stands for the double nearest to it. NaN and the infinities are outside the model: it
  follows the code as long as no operation overflows, which the range hypotheses of the
  theorems about magnitudes ensure.
\<close>

datatype metal = Aluminum | Copper
datatype materialSource = Primary | Recycled
datatype energySource = Coal | Grid | Renewables
datatype transportMode = Truck | Rail | Ship
datatype endOfLife = Landfill | Recycling
datatype scenarioType = Conventional | Circular

record LCAInputs =
  metal :: metal
  materialSource :: materialSource
  energySource :: energySource
  transportMode :: transportMode
  transportDistance :: real
  endOfLife :: endOfLife
  quantity :: real

record LCAScenario =
  name :: string
  scenario_type :: scenarioType
  inputs :: LCAInputs

text \<open>\<open>defaultInputs\<close> and the two scenarios the dashboard is seeded with.\<close>

definition defaultInputs :: LCAInputs where
  "defaultInputs =
     \<lparr>metal = Aluminum, materialSource = Primary, energySource = Grid,
      transportMode = Truck, transportDistance = 500, endOfLife = Recycling,
      quantity = 1000\<rparr>"

definition conventionalScenario :: LCAScenario where
  "conventionalScenario =
     \<lparr>name = ''Conventional (Linear)'', scenario_type = Conventional,
      inputs = defaultInputs\<lparr>materialSource := Primary, endOfLife := Landfill\<rparr>\<rparr>"

definition circularScenario :: LCAScenario where
  "circularScenario =
     \<lparr>name = ''Circular Economy'', scenario_type = Circular,
      inputs = defaultInputs\<lparr>materialSource := Recycled, endOfLife := Recycling\<rparr>\<rparr>"

section \<open>Double-precision arithmetic\<close>

text \<open>
  \<open>expo x\<close> is the binary exponent of a non-zero \<open>x\<close>, the integer \<open>e\<close> with
  \<open>2^e \<le> |x| < 2^(e+1)\<close>, computed from the bit length of the integer part of \<open>|x|\<close>
  or of \<open>1 / |x|\<close>.
\<close>

definition expo :: "real \<Rightarrow> int" where
  "expo x =
     (if 1 \<le> \<bar>x\<bar> then bitlen \<lfloor>\<bar>x\<bar>\<rfloor> - 1 else - bitlen (\<lceil>1 / \<bar>x\<bar>\<rceil> - 1))"

text \<open>Rounding to the nearest integer, a tie going to the even one.\<close>

definition round_even :: "real \<Rightarrow> int" where
  "round_even y =
     (let f = \<lfloor>y\<rfloor>; d = y - of_int f
      in if d < 1 / 2 then f else if 1 / 2 < d then f + 1
         else if even f then f else f + 1)"

text \<open>
  \<open>binary64 x\<close> is the double nearest to \<open>x\<close> (round to nearest, ties to even): a
  multiple of the unit in the last place of \<open>x\<close>, which is \<open>2^(e - 52)\<close> for a
  significand of 53 bits, the exponent being at least -1022 (below that the doubles are
  subnormal and evenly spaced).
\<close>

definition binary64 :: "real \<Rightarrow> real" where
  "binary64 x =
     (if x = 0 then 0
      else let e = max (expo x) (- 1022); ulp = 2 powi (e - 52)
           in of_int (round_even (x / ulp)) * ulp)"

text \<open>
  The operators \<open>*\<close>, \<open>+\<close> and \<open>/\<close> of the source on doubles. The source divides by
  the constants 1000 and 100 only.
\<close>

definition f_mul :: "real \<Rightarrow> real \<Rightarrow> real" where
  "f_mul a b = binary64 (a * b)"

definition f_add :: "real \<Rightarrow> real \<Rightarrow> real" where
  "f_add a b = binary64 (a + b)"

definition f_div :: "real \<Rightarrow> real \<Rightarrow> real" where
  "f_div a b = binary64 (a / b)"

text \<open>For the error bounds: the unit in the last place, and the least normal double.\<close>

definition ulp :: "real \<Rightarrow> real" where
  "ulp x = 2 powi (max (expo x) (- 1022) - 52)"

definition min_normal :: real where
  "min_normal = 2 powi (- 1022)"

section \<open>KPI calculation (KPIDashboard.tsx)\<close>

record KPIData =
  co2Footprint :: real
  energyUse :: real
  recycledContent :: real
  waterUse :: real
  circularityIndex :: real
  costSavings :: real

record baseProfile =
  co2 :: real
  energy :: real
  water :: real

definition baseValues :: "metal \<Rightarrow> baseProfile" where
  "baseValues m =
     (case m of
        Aluminum \<Rightarrow> \<lparr>co2 = binary64 11.9, energy = 170, water = 1550\<rparr>
      | Copper \<Rightarrow> \<lparr>co2 = binary64 4.2, energy = 65, water = 440\<rparr>)"

definition energyFactors :: "energySource \<Rightarrow> real" where
  "energyFactors e =
     (case e of Coal \<Rightarrow> binary64 1.5 | Grid \<Rightarrow> 1.0 | Renewables \<Rightarrow> binary64 0.1)"

text \<open>
  JavaScript's \<open>Math.round\<close>: the nearest integer, a tie going towards plus infinity.
  It is exact: the result is an integer, computed from the double it is given.
\<close>

definition Math_round :: "real \<Rightarrow> real" where
  "Math_round x = of_int \<lfloor>x + 1 / 2\<rfloor>"

text \<open>
  \<open>calculateKPIs\<close>, statement by statement. The three multipliers start at 1 and are
  updated in place by the source; each update is a new binding here.
\<close>

definition calculateKPIs :: "LCAScenario \<Rightarrow> KPIData" where
  "calculateKPIs scenario =
     (let inp = inputs scenario;
          base = baseValues (metal inp);
          co2Multiplier0 = 1;
          energyMultiplier0 = 1;
          waterMultiplier0 = 1;
          co2Multiplier1 =
            (if materialSource inp = Recycled then f_mul co2Multiplier0 (binary64 0.15)
             else co2Multiplier0);
          energyMultiplier =
            (if materialSource inp = Recycled then f_mul energyMultiplier0 (binary64 0.05)
             else energyMultiplier0);
          waterMultiplier =
            (if materialSource inp = Recycled then f_mul waterMultiplier0 (binary64 0.3)
             else waterMultiplier0);
          co2Multiplier = f_mul co2Multiplier1 (energyFactors (energySource inp));
          transportEmissions = f_mul (transportDistance inp) (binary64 0.0001);
          endOfLifeBonus = (if endOfLife inp = Recycling then binary64 0.8 else 1.0);
          co2Footprint' =
            f_div
              (f_mul
                (f_mul (f_add (f_mul (co2 base) co2Multiplier) transportEmissions)
                   endOfLifeBonus)
                (quantity inp))
              1000;
          energyUse' = f_div (f_mul (f_mul (energy base) energyMultiplier) (quantity inp)) 1000;
          waterUse' = f_div (f_mul (f_mul (water base) waterMultiplier) (quantity inp)) 1000;
          recycledContent' = (if materialSource inp = Recycled then 85 else 0);
          circularityIndex' = (if scenario_type scenario = Circular then 75 else 25);
          costSavings' = (if materialSource inp = Recycled then 1250 else 0)
      in \<lparr>co2Footprint = f_div (Math_round (f_mul co2Footprint' 100)) 100,
          energyUse = f_div (Math_round (f_mul energyUse' 100)) 100,
          recycledContent = recycledContent',
          waterUse = f_div (Math_round (f_mul waterUse' 100)) 100,
          circularityIndex = circularityIndex',
          costSavings = costSavings'\<rparr>)"

subsection \<open>The specification's reading of the formulas\<close>

text \<open>
  The specification states the CO2 footprint with one combined multiplier, the product of
  the material-source factor and the energy-source factor, a transport term and an
  end-of-life factor. These definitions follow its words, in exact real arithmetic; the
  theorems compare them with \<open>calculateKPIs\<close>.
\<close>

definition spec_baseValues :: "metal \<Rightarrow> baseProfile" where
  "spec_baseValues m =
     (case m of
        Aluminum \<Rightarrow> \<lparr>co2 = 119 / 10, energy = 170, water = 1550\<rparr>
      | Copper \<Rightarrow> \<lparr>co2 = 42 / 10, energy = 65, water = 440\<rparr>)"

definition spec_materialFactor :: "materialSource \<Rightarrow> real" where
  "spec_materialFactor ms = (case ms of Primary \<Rightarrow> 1 | Recycled \<Rightarrow> 15 / 100)"

definition spec_energyFactor :: "energySource \<Rightarrow> real" where
  "spec_energyFactor es = (case es of Coal \<Rightarrow> 15 / 10 | Grid \<Rightarrow> 1 | Renewables \<Rightarrow> 1 / 10)"

definition spec_endOfLifeFactor :: "endOfLife \<Rightarrow> real" where
  "spec_endOfLifeFactor eol = (case eol of Recycling \<Rightarrow> 8 / 10 | Landfill \<Rightarrow> 1)"

definition spec_co2 :: "LCAInputs \<Rightarrow> real" where
  "spec_co2 inp =
     (co2 (spec_baseValues (metal inp))
        * (spec_materialFactor (materialSource inp) * spec_energyFactor (energySource inp))
      + transportDistance inp * (1 / 10000))
     * spec_endOfLifeFactor (endOfLife inp) * (quantity inp / 1000)"

text \<open>
  Energy and water follow the same pattern without the transport and end-of-life terms:
  base value times the material-source factor times quantity/1000.
\<close>

definition spec_materialEnergy :: "materialSource \<Rightarrow> real" where
  "spec_materialEnergy ms = (case ms of Primary \<Rightarrow> 1 | Recycled \<Rightarrow> 5 / 100)"

definition spec_materialWater :: "materialSource \<Rightarrow> real" where
  "spec_materialWater ms = (case ms of Primary \<Rightarrow> 1 | Recycled \<Rightarrow> 30 / 100)"

definition spec_energy :: "LCAInputs \<Rightarrow> real" where
  "spec_energy inp =
     energy (spec_baseValues (metal inp)) * spec_materialEnergy (materialSource inp)
       * (quantity inp / 1000)"

definition spec_water :: "LCAInputs \<Rightarrow> real" where
  "spec_water inp =
     water (spec_baseValues (metal inp)) * spec_materialWater (materialSource inp)
       * (quantity inp / 1000)"

text \<open>
  Two ways of varying a scenario that the properties speak of: multiplying its quantity
  by a factor, and selecting another energy source, everything else fixed.
\<close>

definition scaleQuantity :: "real \<Rightarrow> LCAScenario \<Rightarrow> LCAScenario" where
  "scaleQuantity k s = s\<lparr>inputs := (inputs s)\<lparr>quantity := k * quantity (inputs s)\<rparr>\<rparr>"

definition withEnergySource :: "energySource \<Rightarrow> LCAScenario \<Rightarrow> LCAScenario" where
  "withEnergySource e s = s\<lparr>inputs := (inputs s)\<lparr>energySource := e\<rparr>\<rparr>"

subsection \<open>Sub-expressions of the calculation\<close>

text \<open>
  For the proofs, the parts of \<open>calculateKPIs\<close> are named. The three outputs share their
  last steps: multiply the per-ton value by the quantity, divide by 1000, and round to
  hundredths with \<open>Math.round(x * 100) / 100\<close>.
\<close>

definition kpi_tail :: "real \<Rightarrow> real \<Rightarrow> real" where
  "kpi_tail v q = f_div (Math_round (f_mul (f_div (f_mul v q) 1000) 100)) 100"

text \<open>
  The per-ton values as the code computes them, and the same values in exact arithmetic
  from the specification's factors.
\<close>

definition code_materialCo2 :: "materialSource \<Rightarrow> real" where
  "code_materialCo2 ms = (if ms = Recycled then f_mul 1 (binary64 0.15) else 1)"

definition code_materialEnergy :: "materialSource \<Rightarrow> real" where
  "code_materialEnergy ms = (if ms = Recycled then f_mul 1 (binary64 0.05) else 1)"

definition code_materialWater :: "materialSource \<Rightarrow> real" where
  "code_materialWater ms = (if ms = Recycled then f_mul 1 (binary64 0.3) else 1)"

definition code_endOfLifeBonus :: "endOfLife \<Rightarrow> real" where
  "code_endOfLifeBonus eol = (if eol = Recycling then binary64 0.8 else 1)"

definition code_co2_rate :: "LCAInputs \<Rightarrow> real" where
  "code_co2_rate inp =
     f_mul
       (f_add
          (f_mul (co2 (baseValues (metal inp)))
             (f_mul (code_materialCo2 (materialSource inp))
                (energyFactors (energySource inp))))
          (f_mul (transportDistance inp) (binary64 0.0001)))
       (code_endOfLifeBonus (endOfLife inp))"

definition spec_co2_rate :: "LCAInputs \<Rightarrow> real" where
  "spec_co2_rate inp =
     (co2 (spec_baseValues (metal inp))
        * (spec_materialFactor (materialSource inp) * spec_energyFactor (energySource inp))
      + transportDistance inp * (1 / 10000))
     * spec_endOfLifeFactor (endOfLife inp)"

definition spec_energy_rate :: "LCAInputs \<Rightarrow> real" where
  "spec_energy_rate inp =
     energy (spec_baseValues (metal inp))
       * spec_materialEnergy (materialSource inp)"

definition spec_water_rate :: "LCAInputs \<Rightarrow> real" where
  "spec_water_rate inp =
     water (spec_baseValues (metal inp))
       * spec_materialWater (materialSource inp)"

section \<open>Impact preview of the scenario selector (ScenarioSelector)\<close>

record ImpactPreview =
  preview_recycledContent :: real
  co2Reduction :: real
  energySavings :: real

definition getImpactPreview :: "LCAScenario \<Rightarrow> ImpactPreview" where
  "getImpactPreview scenario =
     (let isCircular = (scenario_type scenario = Circular);
          recycledContent' =
            (if materialSource (inputs scenario) = Recycled then 85 else 0);
          co2Reduction' = (if isCircular then 65 else 0)
      in \<lparr>preview_recycledContent = recycledContent',
          co2Reduction = co2Reduction',
          energySavings = (if isCircular then 45 else 0)\<rparr>)"

section \<open>Flow generation (SankeyVisualization.tsx)\<close>

datatype flowType =
  FlowPrimary | FlowRecycled | FlowEnergy | FlowTransport | FlowWaste | FlowCircular

datatype flowIcon = Factory | Recycle | Zap | TruckIcon

text \<open>
  \<open>FlowData\<close>; the optional \<open>icon\<close> field is an option. The field names carry a
  prefix because \<open>from\<close>, \<open>value\<close> and \<open>type\<close> are reserved words here.
\<close>

record FlowData =
  flow_from :: string
  flow_to :: string
  flow_value :: real
  flow_type :: flowType
  icon :: "flowIcon option"

text \<open>The string of an energy source, as the template literal prints it.\<close>

definition energySource_string :: "energySource \<Rightarrow> string" where
  "energySource_string e =
     (case e of Coal \<Rightarrow> ''coal'' | Grid \<Rightarrow> ''grid'' | Renewables \<Rightarrow> ''renewables'')"

text \<open>
  \<open>generateFlowData\<close>: every \<open>flows.push\<close> appends at the end of the list, in the
  order of the source.
\<close>

definition generateFlowData :: "LCAScenario \<Rightarrow> FlowData list" where
  "generateFlowData scenario =
     (let inp = inputs scenario;
          baseQuantity = f_div (quantity inp) 1000;
          flows0 = [];
          flows1 =
            (if materialSource inp = Primary then
               flows0 @
               [\<lparr>flow_from = ''Raw Materials'', flow_to = ''Production'',
                 flow_value = baseQuantity, flow_type = FlowPrimary, icon = Some Factory\<rparr>]
             else
               flows0 @
               [\<lparr>flow_from = ''Recycled Materials'', flow_to = ''Production'',
                 flow_value = f_mul baseQuantity (binary64 0.85), flow_type = FlowRecycled,
                 icon = Some Recycle\<rparr>] @
               [\<lparr>flow_from = ''Raw Materials'', flow_to = ''Production'',
                 flow_value = f_mul baseQuantity (binary64 0.15), flow_type = FlowPrimary,
                 icon = Some Factory\<rparr>]);
          energyAmount =
            (if metal inp = Aluminum then f_mul baseQuantity 15 else f_mul baseQuantity 6);
          flows2 =
            flows1 @
            [\<lparr>flow_from = energySource_string (energySource inp) @ '' Energy'',
              flow_to = ''Production'', flow_value = energyAmount, flow_type = FlowEnergy,
              icon = Some Zap\<rparr>];
          flows3 =
            flows2 @
            [\<lparr>flow_from = ''Production'', flow_to = ''Distribution'',
              flow_value = baseQuantity, flow_type = FlowTransport, icon = Some TruckIcon\<rparr>];
          flows4 =
            flows3 @
            [\<lparr>flow_from = ''Distribution'', flow_to = ''Use Phase'',
              flow_value = baseQuantity, flow_type = FlowPrimary, icon = None\<rparr>];
          flows5 =
            (if endOfLife inp = Recycling then
               flows4 @
               [\<lparr>flow_from = ''Use Phase'', flow_to = ''Recycling'',
                 flow_value = f_mul baseQuantity (binary64 0.9), flow_type = FlowCircular,
                 icon = Some Recycle\<rparr>] @
               [\<lparr>flow_from = ''Use Phase'', flow_to = ''Waste'',
                 flow_value = f_mul baseQuantity (binary64 0.1), flow_type = FlowWaste,
                 icon = None\<rparr>] @
               [\<lparr>flow_from = ''Recycling'', flow_to = ''Recycled Materials'',
                 flow_value = f_mul baseQuantity (binary64 0.85), flow_type = FlowCircular,
                 icon = Some Recycle\<rparr>]
             else
               flows4 @
               [\<lparr>flow_from = ''Use Phase'', flow_to = ''Waste'',
                 flow_value = baseQuantity, flow_type = FlowWaste, icon = None\<rparr>])
      in flows5)"

text \<open>
  Reading a flow list: the edges out of a stage and into a stage, the values carried from
  one stage to another, all in list order, and the material input edges, that is the edges into Production that carry material
  (primary or recycled) rather than energy.
\<close>

definition edges_from :: "string \<Rightarrow> FlowData list \<Rightarrow> FlowData list" where
  "edges_from a flows = filter (\<lambda>f. flow_from f = a) flows"

definition edges_to :: "string \<Rightarrow> FlowData list \<Rightarrow> FlowData list" where
  "edges_to b flows = filter (\<lambda>f. flow_to f = b) flows"

definition edge_values :: "string \<Rightarrow> string \<Rightarrow> FlowData list \<Rightarrow> real list" where
  "edge_values a b flows =
     map flow_value (filter (\<lambda>f. flow_from f = a \<and> flow_to f = b) flows)"

definition materialInputEdges :: "FlowData list \<Rightarrow> FlowData list" where
  "materialInputEdges flows =
     filter (\<lambda>f. flow_to f = ''Production''
                  \<and> (flow_type f = FlowPrimary \<or> flow_type f = FlowRecycled)) flows"

text \<open>The sum of a list of doubles as a left-to-right sum in double arithmetic.\<close>

definition sum_f64 :: "real list \<Rightarrow> real" where
  "sum_f64 xs = foldl f_add 0 xs"

section \<open>Input validation and submission (UserInputModule.tsx)\<close>

text \<open>
  The \<open>errors\<close> state is a \<open>Record<string, string>\<close>: an association list from field
  name to message, keys in insertion order, an assignment replacing the value of a key
  that is present.
\<close>

type_synonym errorRecord = "(string \<times> string) list"

datatype toastVariant = DefaultVariant | Destructive

record toast =
  title :: string
  description :: string
  variant :: toastVariant

text \<open>
  \<open>validateInputs\<close> builds \<open>newErrors\<close>, stores it with \<open>setErrors\<close> and returns whether
  it has no key. The model returns both the stored record and the boolean.
\<close>

definition validateInputs :: "LCAInputs \<Rightarrow> errorRecord \<times> bool" where
  "validateInputs inp =
     (let newErrors0 = [];
          newErrors1 =
            (if quantity inp \<le> 0 then
               AList.update ''quantity'' ''Quantity must be greater than 0'' newErrors0
             else newErrors0);
          newErrors2 =
            (if transportDistance inp < 0 then
               AList.update ''transportDistance'' ''Distance cannot be negative'' newErrors1
             else newErrors1);
          newErrors3 =
            (if transportDistance inp > 10000 then
               AList.update ''transportDistance''
                 ''Distance seems unrealistic (>10,000 km)'' newErrors2
             else newErrors2)
      in (newErrors3, length (map fst newErrors3) = 0))"

text \<open>
  The state the component's handlers act on: the \<open>inputs\<close> prop (the parent replaces it
  on \<open>onChange\<close>), the \<open>errors\<close> state, the number of calls of the \<open>onRunLCA\<close>
  callback so far, and the notifications shown so far.
\<close>

record formState =
  form_inputs :: LCAInputs
  errors :: errorRecord
  onRunLCA_calls :: nat
  toasts :: "toast list"

text \<open>The form as the dashboard first renders it: default inputs, \<open>useState({})\<close>.\<close>

definition initialForm :: formState where
  "initialForm =
     \<lparr>form_inputs = defaultInputs, errors = [], onRunLCA_calls = 0, toasts = []\<rparr>"

definition handleSubmit :: "formState \<Rightarrow> formState" where
  "handleSubmit st =
     (let (newErrors, valid) = validateInputs (form_inputs st);
          st1 = st\<lparr>errors := newErrors\<rparr>
      in if valid then
           st1\<lparr>onRunLCA_calls := Suc (onRunLCA_calls st1),
               toasts := toasts st1 @
                 [\<lparr>title = ''LCA Analysis Started'',
                   description =
                     ''Running life cycle assessment with current parameters...'',
                   variant = DefaultVariant\<rparr>]\<rparr>
         else
           st1\<lparr>toasts := toasts st1 @
                 [\<lparr>title = ''Validation Error'',
                   description =
                     ''Please fix the input errors before running the analysis.'',
                   variant = Destructive\<rparr>]\<rparr>)"

text \<open>
  \<open>updateInput(key, value)\<close>: one constructor for each key of \<open>LCAInputs\<close>, carrying
  the value of that key's type.
\<close>

datatype inputUpdate =
  SetMetal metal
  | SetMaterialSource materialSource
  | SetEnergySource energySource
  | SetTransportMode transportMode
  | SetTransportDistance real
  | SetEndOfLife endOfLife
  | SetQuantity real

fun update_key :: "inputUpdate \<Rightarrow> string" where
  "update_key (SetMetal _) = ''metal''"
| "update_key (SetMaterialSource _) = ''materialSource''"
| "update_key (SetEnergySource _) = ''energySource''"
| "update_key (SetTransportMode _) = ''transportMode''"
| "update_key (SetTransportDistance _) = ''transportDistance''"
| "update_key (SetEndOfLife _) = ''endOfLife''"
| "update_key (SetQuantity _) = ''quantity''"

fun spread_update :: "LCAInputs \<Rightarrow> inputUpdate \<Rightarrow> LCAInputs" where
  "spread_update inp (SetMetal v) = inp\<lparr>metal := v\<rparr>"
| "spread_update inp (SetMaterialSource v) = inp\<lparr>materialSource := v\<rparr>"
| "spread_update inp (SetEnergySource v) = inp\<lparr>energySource := v\<rparr>"
| "spread_update inp (SetTransportMode v) = inp\<lparr>transportMode := v\<rparr>"
| "spread_update inp (SetTransportDistance v) = inp\<lparr>transportDistance := v\<rparr>"
| "spread_update inp (SetEndOfLife v) = inp\<lparr>endOfLife := v\<rparr>"
| "spread_update inp (SetQuantity v) = inp\<lparr>quantity := v\<rparr>"

text \<open>
  A looked-up message is truthy when the key is present and the string is not empty.
\<close>

definition truthy :: "string option \<Rightarrow> bool" where
  "truthy v = (case v of None \<Rightarrow> False | Some m \<Rightarrow> m \<noteq> [])"

definition updateInput :: "inputUpdate \<Rightarrow> formState \<Rightarrow> formState" where
  "updateInput u st =
     (let st1 = st\<lparr>form_inputs := spread_update (form_inputs st) u\<rparr>
      in if truthy (map_of (errors st) (update_key u)) then
           st1\<lparr>errors := AList.update (update_key u) [] (errors st)\<rparr>
         else st1)"

text \<open>
  The inline message the labels render: \<open>errors.key && <span>...</span>\<close> shows the
  message when it is truthy and nothing otherwise.
\<close>

definition inlineError :: "formState \<Rightarrow> string \<Rightarrow> string option" where
  "inlineError st key =
     (if truthy (map_of (errors st) key) then map_of (errors st) key else None)"

section \<open>Report generation (ReportGenerator)\<close>

text \<open>
  The component has two boolean state variables. The handler is asynchronous: between
  its state updates it awaits the network call and a timer. It is modelled by the
  sequence of effects it performs, which depends only on whether the network call
  resolves or rejects; an interpreter applies the effects to the component state. Time is
  the sum of the timer delays awaited, in milliseconds.
\<close>

datatype fetchOutcome = Resolved | Rejected

datatype effect =
  SetIsGenerating bool
  | SetReportGenerated bool
  | AwaitFetch
  | AwaitTimeout nat
  | ShowToast toast
  | ConsoleLog string

record reportState =
  isGenerating :: bool
  reportGenerated :: bool
  report_toasts :: "toast list"
  console :: "string list"
  waited_ms :: nat

text \<open>Both state variables start as \<open>false\<close>.\<close>

definition initialReport :: reportState where
  "initialReport =
     \<lparr>isGenerating = False, reportGenerated = False, report_toasts = [], console = [],
      waited_ms = 0\<rparr>"

definition successToast :: toast where
  "successToast =
     \<lparr>title = ''Report Generated Successfully'',
      description = ''Your LCA report is ready for download.'',
      variant = DefaultVariant\<rparr>"

text \<open>
  The \<open>try\<close> block: \<open>Inr\<close> when it runs to its end, \<open>Inl\<close> when the awaited call
  rejects, with the effects performed up to that point.
\<close>

definition tryBlock :: "fetchOutcome \<Rightarrow> effect list + effect list" where
  "tryBlock outcome =
     (case outcome of
        Resolved \<Rightarrow>
          Inr [AwaitFetch, AwaitTimeout 3000, SetReportGenerated True, ShowToast successToast]
      | Rejected \<Rightarrow> Inl [AwaitFetch])"

definition catchBlock :: "effect list" where
  "catchBlock =
     [ConsoleLog ''Using mock report generation for demo'', AwaitTimeout 3000,
      SetReportGenerated True, ShowToast successToast]"

definition finallyBlock :: "effect list" where
  "finallyBlock = [SetIsGenerating False]"

definition handleGenerateReport :: "fetchOutcome \<Rightarrow> effect list" where
  "handleGenerateReport outcome =
     [SetIsGenerating True] @
     (case tryBlock outcome of
        Inr done_effects \<Rightarrow> done_effects
      | Inl thrown_effects \<Rightarrow> thrown_effects @ catchBlock) @
     finallyBlock"

fun perform :: "reportState \<Rightarrow> effect \<Rightarrow> reportState" where
  "perform st (SetIsGenerating b) = st\<lparr>isGenerating := b\<rparr>"
| "perform st (SetReportGenerated b) = st\<lparr>reportGenerated := b\<rparr>"
| "perform st AwaitFetch = st"
| "perform st (AwaitTimeout ms) = st\<lparr>waited_ms := waited_ms st + ms\<rparr>"
| "perform st (ShowToast t) = st\<lparr>report_toasts := report_toasts st @ [t]\<rparr>"
| "perform st (ConsoleLog m) = st\<lparr>console := console st @ [m]\<rparr>"

text \<open>The states passed through while performing a list of effects, the start first.\<close>

fun run_trace :: "reportState \<Rightarrow> effect list \<Rightarrow> reportState list" where
  "run_trace st [] = [st]"
| "run_trace st (e # es) = st # run_trace (perform st e) es"

definition run_effects :: "reportState \<Rightarrow> effect list \<Rightarrow> reportState" where
  "run_effects st es = foldl perform st es"

text \<open>The click handler of the "Generate New Report" button.\<close>

definition generateNewReport :: "reportState \<Rightarrow> reportState" where
  "generateNewReport st = st\<lparr>reportGenerated := False\<rparr>"

text \<open>
  What the panel renders: the report preview when \<open>reportGenerated\<close>; otherwise the
  controls, with the busy button and the progress card when \<open>isGenerating\<close>.
\<close>

datatype panelView = Idle | Generating | Generated

definition panel :: "reportState \<Rightarrow> panelView" where
  "panel st =
     (if \<not> reportGenerated st then (if isGenerating st then Generating else Idle)
      else Generated)"

section \<open>Properties of double-precision rounding\<close>

lemma expo_ge1:
  assumes "1 \<le> \<bar>x\<bar>"
  shows "2 powi expo x \<le> \<bar>x\<bar> \<and> \<bar>x\<bar> < 2 powi (expo x + 1)"
proof -
  let ?n = "\<lfloor>\<bar>x\<bar>\<rfloor>"
  have n: "0 < ?n" using assms by simp
  have e: "expo x = bitlen ?n - 1" using assms by (simp add: expo_def)
  have b1: "1 \<le> bitlen ?n" using n by (auto simp: bitlen_alt_def)
  from bitlen_bounds [OF n]
  have lo: "(2::int) ^ nat (bitlen ?n - 1) \<le> ?n" and hi: "?n < 2 ^ nat (bitlen ?n)"
    by simp_all
  have "real_of_int (2 ^ nat (bitlen ?n - 1)) \<le> real_of_int ?n"
    using lo by (simp only: of_int_le_iff)
  also have "\<dots> \<le> \<bar>x\<bar>" by simp
  finally have 1: "2 powi expo x \<le> \<bar>x\<bar>"
    using b1 by (simp add: e power_int_def)
  have "\<bar>x\<bar> < real_of_int (2 ^ nat (bitlen ?n))"
    using hi by (simp add: floor_less_iff)
  then have 2: "\<bar>x\<bar> < 2 powi (expo x + 1)"
    using b1 by (simp add: e power_int_def)
  show ?thesis using 1 2 by simp
qed

lemma expo_lt1:
  assumes "x \<noteq> 0" and "\<bar>x\<bar> < 1"
  shows "2 powi expo x \<le> \<bar>x\<bar> \<and> \<bar>x\<bar> < 2 powi (expo x + 1)"
proof -
  let ?y = "1 / \<bar>x\<bar>"
  let ?c = "\<lceil>?y\<rceil> - 1"
  let ?k = "bitlen ?c"
  have xpos: "0 < \<bar>x\<bar>" using assms(1) by simp
  have y1: "1 < ?y" using assms xpos by (simp add: field_simps)
  have c: "0 < ?c" using y1 by (simp add: less_ceiling_iff)
  have e: "expo x = - ?k" using assms by (simp add: expo_def)
  have k1: "1 \<le> ?k" using c by (auto simp: bitlen_alt_def)
  from bitlen_bounds [OF c]
  have lo: "(2::int) ^ nat (?k - 1) \<le> ?c" and hi: "?c < 2 ^ nat ?k"
    by simp_all
  have "(2::int) ^ nat (?k - 1) < \<lceil>?y\<rceil>" using lo by simp
  then have ylo: "real_of_int (2 ^ nat (?k - 1)) < ?y"
    by (simp only: less_ceiling_iff)
  have "\<lceil>?y\<rceil> \<le> 2 ^ nat ?k" using hi by simp
  then have yhi: "?y \<le> real_of_int (2 ^ nat ?k)"
    by (simp only: ceiling_le_iff)
  have p: "(2::real) powi (- ?k) = 1 / 2 ^ nat ?k"
    using k1 by (simp add: power_int_def field_simps)
  have p': "(2::real) powi (1 - ?k) = 1 / 2 ^ nat (?k - 1)"
    using k1 by (simp add: power_int_def field_simps nat_diff_distrib)
  have 1: "2 powi expo x \<le> \<bar>x\<bar>"
    using yhi xpos by (simp add: e p field_simps)
  have 2: "\<bar>x\<bar> < 2 powi (expo x + 1)"
    using ylo xpos by (simp add: e p' field_simps)
  show ?thesis using 1 2 by simp
qed

lemma expo_bounds:
  "x \<noteq> 0 \<Longrightarrow> 2 powi expo x \<le> \<bar>x\<bar> \<and> \<bar>x\<bar> < 2 powi (expo x + 1)"
  using expo_ge1 [of x] expo_lt1 [of x] by (cases "1 \<le> \<bar>x\<bar>") auto

lemma round_even_err: "\<bar>of_int (round_even y) - y\<bar> \<le> 1 / 2"
  unfolding round_even_def Let_def by (auto simp: abs_le_iff)

lemma round_even_of_int [simp]: "round_even (of_int n) = n"
  by (simp add: round_even_def)

lemma round_even_lower: "of_int \<lfloor>y\<rfloor> \<le> (of_int (round_even y) :: real)"
  unfolding round_even_def Let_def by auto

lemma round_even_cases: "round_even y = \<lfloor>y\<rfloor> \<or> round_even y = \<lfloor>y\<rfloor> + 1"
  unfolding round_even_def Let_def by auto

lemma round_even_mono:
  assumes "y \<le> z"
  shows "round_even y \<le> round_even z"
proof (cases "\<lfloor>y\<rfloor> = \<lfloor>z\<rfloor>")
  case True
  have "y - of_int \<lfloor>y\<rfloor> \<le> z - of_int \<lfloor>z\<rfloor>"
    using assms True by simp
  then show ?thesis
    unfolding round_even_def Let_def using True by auto
next
  case False
  then have lt: "\<lfloor>y\<rfloor> < \<lfloor>z\<rfloor>"
    using assms floor_mono [of y z] by linarith
  have "round_even y \<le> \<lfloor>y\<rfloor> + 1"
    using round_even_cases [of y] by auto
  also have "\<dots> \<le> \<lfloor>z\<rfloor>" using lt by simp
  also have "\<dots> \<le> round_even z"
    using round_even_cases [of z] by auto
  finally show ?thesis .
qed

lemma round_even_neg: "round_even (- y) = - round_even y"
proof (cases "y = of_int \<lfloor>y\<rfloor>")
  case True
  then obtain n where "y = of_int n" ..
  then show ?thesis
    by (simp flip: of_int_minus)
next
  case False
  then have fl: "\<lfloor>- y\<rfloor> = - \<lfloor>y\<rfloor> - 1"
    by (metis ceiling_altdef ceiling_def add_diff_cancel_right' minus_diff_eq
        uminus_add_conv_diff)
  show ?thesis
    unfolding round_even_def Let_def fl
    by (auto simp: algebra_simps)
qed

lemma round_even_0 [simp]: "round_even 0 = 0"
  using round_even_of_int [of 0] by simp

lemma binary64_alt: "binary64 x = of_int (round_even (x / ulp x)) * ulp x"
  by (simp add: binary64_def ulp_def Let_def)

lemma ulp_pos: "0 < ulp x"
  by (simp add: ulp_def)

lemma binary64_err_ulp: "\<bar>binary64 x - x\<bar> \<le> ulp x / 2"
proof -
  have "\<bar>of_int (round_even (x / ulp x)) - x / ulp x\<bar> \<le> 1 / 2"
    by (rule round_even_err)
  then have "\<bar>of_int (round_even (x / ulp x)) - x / ulp x\<bar> * ulp x \<le> 1 / 2 * ulp x"
    using ulp_pos [of x] by (simp only: mult_le_cancel_right_pos)
  then have "\<bar>(of_int (round_even (x / ulp x)) - x / ulp x) * ulp x\<bar> \<le> ulp x / 2"
    using ulp_pos [of x] by (simp add: abs_mult)
  then show ?thesis
    using ulp_pos [of x] by (simp add: binary64_alt left_diff_distrib)
qed

lemma ulp_le:
  assumes "x \<noteq> 0" and "\<bar>x\<bar> \<le> B" and "min_normal \<le> B"
  shows "ulp x \<le> B / 2 ^ 52"
proof (cases "- 1022 \<le> expo x")
  case True
  then have "2 powi expo x \<le> \<bar>x\<bar>"
    using expo_bounds [of x] assms(1) by simp
  then have "2 powi expo x \<le> B" using assms(2) by simp
  moreover have "max (expo x) (- 1022) = expo x"
    using True by (simp only: max_absorb1)
  then have "ulp x = 2 powi expo x / 2 ^ 52"
    unfolding ulp_def using power_int_diff [of "2::real" "expo x" 52] by simp
  ultimately show ?thesis by (simp only: divide_right_mono zero_le_power zero_le_numeral)
next
  case False
  then have "max (expo x) (- 1022) = - 1022"
    by simp
  then have "ulp x = min_normal / 2 ^ 52"
    unfolding ulp_def min_normal_def
    using power_int_diff [of "2::real" "- 1022" 52] by simp
  then show ?thesis
    using assms(3) by (simp only: divide_right_mono zero_le_power zero_le_numeral)
qed

lemma binary64_err:
  assumes "\<bar>x\<bar> \<le> B" and "min_normal \<le> B"
  shows "\<bar>binary64 x - x\<bar> \<le> B / 2 ^ 53"
proof (cases "x = 0")
  case True
  then show ?thesis
    using assms(1) by (simp add: binary64_def)
next
  case False
  have "\<bar>binary64 x - x\<bar> \<le> ulp x / 2"
    by (rule binary64_err_ulp)
  also have "\<dots> \<le> (B / 2 ^ 52) / 2"
    using ulp_le [OF False assms] by simp
  also have "\<dots> = B / 2 ^ 53" by simp
  finally show ?thesis .
qed

lemma min_normal_le_1: "min_normal \<le> 1"
proof -
  have "(1::real) \<le> 2 ^ 1022"
    by (rule one_le_power) simp
  then have "1 / 2 ^ 1022 \<le> (1::real)"
    by (simp only: divide_le_eq_1_pos zero_less_power zero_less_numeral)
  then show ?thesis
    unfolding min_normal_def
    using power_int_minus_divide [of "2::real" 1022] by simp
qed

lemma expo_neg [simp]: "expo (- x) = expo x"
  by (simp add: expo_def)

lemma ulp_neg [simp]: "ulp (- x) = ulp x"
  by (simp add: ulp_def)

lemma binary64_neg: "binary64 (- x) = - binary64 x"
  by (simp add: binary64_alt round_even_neg)

lemma binary64_0 [simp]: "binary64 0 = 0"
  by (simp add: binary64_def)

lemma expo_mono:
  assumes "0 < x" and "x \<le> y"
  shows "expo x \<le> expo y"
proof (rule ccontr)
  assume "\<not> expo x \<le> expo y"
  then have "expo y + 1 \<le> expo x" by simp
  then have "(2::real) powi (expo y + 1) \<le> 2 powi expo x"
    by (rule power_int_increasing) simp
  also have "\<dots> \<le> \<bar>x\<bar>" using expo_bounds [of x] assms(1) by simp
  also have "\<dots> \<le> \<bar>y\<bar>" using assms by simp
  also have "\<dots> < 2 powi (expo y + 1)" using expo_bounds [of y] assms by simp
  finally show False by simp
qed

lemma binary64_mono_pos:
  assumes "0 < x" and "x \<le> y"
  shows "binary64 x \<le> binary64 y"
proof -
  let ?ex = "max (expo x) (- 1022)"
  let ?ey = "max (expo y) (- 1022)"
  have ypos: "0 < y" using assms by simp
  have le: "?ex \<le> ?ey" using expo_mono [OF assms] by simp
  show ?thesis
  proof (cases "?ex = ?ey")
    case True
    then have u: "ulp x = ulp y" by (simp add: ulp_def)
    have "x / ulp y \<le> y / ulp y"
      using assms(2) ulp_pos [of y] by (simp add: divide_right_mono)
    then have "round_even (x / ulp y) \<le> round_even (y / ulp y)"
      by (rule round_even_mono)
    then have "real_of_int (round_even (x / ulp y)) * ulp y
                 \<le> real_of_int (round_even (y / ulp y)) * ulp y"
      using ulp_pos [of y] by (simp only: mult_le_cancel_right_pos of_int_le_iff)
    then show ?thesis by (simp add: binary64_alt u)
  next
    case False
    then have lt: "?ex + 1 \<le> ?ey" using le by simp
    then have ey: "?ey = expo y" by (simp add: max_def split: if_splits)
    have ux: "ulp x * 2 ^ 53 = 2 powi (?ex + 1)"
      unfolding ulp_def using power_int_add [of "2::real" "?ex - 52" 53]
      by (simp add: add.commute)
    have uy: "ulp y * 2 ^ 52 = 2 powi ?ey"
      unfolding ulp_def using power_int_add [of "2::real" "?ey - 52" 52]
      by (simp add: add.commute)
    have "x < 2 powi (expo x + 1)"
      using expo_bounds [of x] assms(1) by simp
    also have "\<dots> \<le> 2 powi (?ex + 1)"
      by (rule power_int_increasing) simp_all
    finally have "x < ulp x * 2 ^ 53" by (simp only: ux)
    then have "x / ulp x \<le> of_int (2 ^ 53)"
      using ulp_pos [of x] by (simp add: field_simps)
    then have "round_even (x / ulp x) \<le> round_even (of_int (2 ^ 53))"
      by (rule round_even_mono)
    then have "real_of_int (round_even (x / ulp x)) \<le> 2 ^ 53"
      by (simp only: round_even_of_int) simp
    then have "real_of_int (round_even (x / ulp x)) * ulp x \<le> 2 ^ 53 * ulp x"
      using ulp_pos [of x] by (simp only: mult_le_cancel_right_pos)
    then have a: "binary64 x \<le> 2 powi (?ex + 1)"
      using ux by (simp add: binary64_alt mult.commute)
    have b: "(2::real) powi (?ex + 1) \<le> 2 powi ?ey"
      using lt by (rule power_int_increasing) simp
    have "2 powi ?ey \<le> y"
      using expo_bounds [of y] ypos by (simp add: ey)
    then have "of_int (2 ^ 52) \<le> y / ulp y"
      using ulp_pos [of y] uy by (simp add: field_simps)
    then have "round_even (of_int (2 ^ 52)) \<le> round_even (y / ulp y)"
      by (rule round_even_mono)
    then have "2 ^ 52 \<le> real_of_int (round_even (y / ulp y))"
      by (simp only: round_even_of_int) simp
    then have "2 ^ 52 * ulp y \<le> real_of_int (round_even (y / ulp y)) * ulp y"
      using ulp_pos [of y] by (simp only: mult_le_cancel_right_pos)
    then have c: "2 powi ?ey \<le> binary64 y"
      using uy by (simp add: binary64_alt mult.commute)
    show ?thesis using a b c by linarith
  qed
qed

lemma binary64_nonneg:
  assumes "0 \<le> x"
  shows "0 \<le> binary64 x"
proof -
  have "0 \<le> x / ulp x" using assms ulp_pos [of x] by simp
  then have "round_even (of_int 0) \<le> round_even (x / ulp x)"
    by (intro round_even_mono) simp
  then have "0 \<le> real_of_int (round_even (x / ulp x))"
    by (simp only: round_even_of_int of_int_0_le_iff)
  then show ?thesis
    using ulp_pos [of x] by (simp add: binary64_alt)
qed

lemma binary64_mono:
  assumes "x \<le> y"
  shows "binary64 x \<le> binary64 y"
proof -
  consider "0 < x" | "x \<le> 0" "0 \<le> y" | "y < 0" by linarith
  then show ?thesis
  proof cases
    case 1
    then show ?thesis using assms by (rule binary64_mono_pos)
  next
    case 2
    have "binary64 x = - binary64 (- x)"
      using binary64_neg [of "- x"] by simp
    moreover have "0 \<le> - x"
      using 2(1) by simp
    then have "0 \<le> binary64 (- x)"
      by (rule binary64_nonneg)
    moreover have "0 \<le> binary64 y"
      using 2(2) by (rule binary64_nonneg)
    ultimately show ?thesis by linarith
  next
    case 3
    then have "binary64 (- y) \<le> binary64 (- x)"
      using assms by (intro binary64_mono_pos) simp_all
    then show ?thesis by (simp add: binary64_neg)
  qed
qed

section \<open>Error bounds of the double operations\<close>

text \<open>
  Each lemma bounds the distance between the result of a double operation on computed
  values and the exact operation on the exact values, from bounds on the errors and the
  magnitudes of the operands.
\<close>

lemma f_mul_err:
  assumes "\<bar>a - a'\<bar> \<le> ea" and "\<bar>b - b'\<bar> \<le> eb" and "\<bar>a'\<bar> \<le> A" and "\<bar>b'\<bar> \<le> Bb"
    and "(A + ea) * (Bb + eb) \<le> M" and "1 \<le> M"
    and "M / 2 ^ 53 + ea * (Bb + eb) + A * eb \<le> E"
  shows "\<bar>f_mul a b - a' * b'\<bar> \<le> E"
proof -
  have ea0: "0 \<le> ea" and eb0: "0 \<le> eb" and A0: "0 \<le> A"
    using assms(1,2,3) by linarith+
  have a: "\<bar>a\<bar> \<le> A + ea" using assms(1,3) by linarith
  have b: "\<bar>b\<bar> \<le> Bb + eb" using assms(2,4) by linarith
  have "\<bar>a * b\<bar> \<le> (A + ea) * (Bb + eb)"
    unfolding abs_mult using a b by (intro mult_mono) simp_all
  then have ab: "\<bar>a * b\<bar> \<le> M" using assms(5) by linarith
  have "min_normal \<le> M" using min_normal_le_1 assms(6) by linarith
  then have r: "\<bar>binary64 (a * b) - a * b\<bar> \<le> M / 2 ^ 53"
    using ab by (intro binary64_err)
  have "a * b - a' * b' = (a - a') * b + a' * (b - b')"
    by (simp add: algebra_simps)
  then have "\<bar>a * b - a' * b'\<bar> \<le> \<bar>a - a'\<bar> * \<bar>b\<bar> + \<bar>a'\<bar> * \<bar>b - b'\<bar>"
    by (metis abs_mult abs_triangle_ineq)
  also have "\<dots> \<le> ea * (Bb + eb) + A * eb"
    using assms(1,2,3) b ea0 A0 by (intro add_mono mult_mono) simp_all
  finally have "\<bar>a * b - a' * b'\<bar> \<le> ea * (Bb + eb) + A * eb" .
  then show ?thesis
    unfolding f_mul_def using r assms(7) by linarith
qed

lemma f_add_err:
  assumes "\<bar>a - a'\<bar> \<le> ea" and "\<bar>b - b'\<bar> \<le> eb" and "\<bar>a'\<bar> \<le> A" and "\<bar>b'\<bar> \<le> Bb"
    and "A + ea + Bb + eb \<le> M" and "1 \<le> M"
    and "M / 2 ^ 53 + ea + eb \<le> E"
  shows "\<bar>f_add a b - (a' + b')\<bar> \<le> E"
proof -
  have "\<bar>a + b\<bar> \<le> M" using assms(1-5) by linarith
  moreover have "min_normal \<le> M" using min_normal_le_1 assms(6) by linarith
  ultimately have "\<bar>binary64 (a + b) - (a + b)\<bar> \<le> M / 2 ^ 53"
    by (intro binary64_err)
  then show ?thesis
    unfolding f_add_def using assms(1,2,7) by linarith
qed

lemma f_div_err:
  assumes "\<bar>a - a'\<bar> \<le> ea" and "\<bar>a'\<bar> \<le> A" and "0 < c"
    and "(A + ea) / c \<le> M" and "1 \<le> M"
    and "M / 2 ^ 53 + ea / c \<le> E"
  shows "\<bar>f_div a c - a' / c\<bar> \<le> E"
proof -
  have "\<bar>a\<bar> \<le> A + ea" using assms(1,2) by linarith
  then have "\<bar>a\<bar> / c \<le> (A + ea) / c"
    using assms(3) by (simp add: divide_right_mono)
  then have "\<bar>a / c\<bar> \<le> M"
    using assms(3,4) by simp
  moreover have "min_normal \<le> M" using min_normal_le_1 assms(5) by linarith
  ultimately have r: "\<bar>binary64 (a / c) - a / c\<bar> \<le> M / 2 ^ 53"
    by (intro binary64_err)
  have "\<bar>a / c - a' / c\<bar> = \<bar>a - a'\<bar> / c"
    using assms(3) by (simp add: diff_divide_distrib [symmetric])
  also have "\<dots> \<le> ea / c"
    using assms(1,3) by (simp add: divide_right_mono)
  finally have "\<bar>a / c - a' / c\<bar> \<le> ea / c" .
  then show ?thesis
    unfolding f_div_def using r assms(6) by linarith
qed

lemma Math_round_bounds:
  "\<bar>Math_round y - y\<bar> \<le> 1 / 2"
proof -
  have "of_int \<lfloor>y + 1 / 2\<rfloor> \<le> y + 1 / 2"
    by (rule of_int_floor_le)
  moreover have "y + 1 / 2 < of_int \<lfloor>y + 1 / 2\<rfloor> + 1"
    by (rule floor_correct [THEN conjunct2, simplified])
  ultimately show ?thesis
    unfolding Math_round_def by linarith
qed

lemma kpi_tail_err:
  assumes v: "\<bar>v - v'\<bar> \<le> 24000 / 2 ^ 53" and v': "\<bar>v'\<bar> \<le> 1600"
    and q0: "0 \<le> q" and q1: "q \<le> 10000"
  shows "\<exists>n::int. kpi_tail v q = binary64 (of_int n / 100)
           \<and> \<bar>of_int n / 100 - v' * q / 1000\<bar> \<le> 1 / 200 + 1 / 10 ^ 10
           \<and> \<bar>kpi_tail v q - v' * q / 1000\<bar> \<le> 1 / 200 + 1 / 10 ^ 9"
proof -
  have qq: "\<bar>q - q\<bar> \<le> 0" "\<bar>q\<bar> \<le> 10000" using q0 q1 by simp_all
  have w: "\<bar>f_mul v q - v' * q\<bar> \<le> 256000001 / 2 ^ 53"
    by (rule f_mul_err [OF v qq(1) v' qq(2), of 16000001]) simp_all
  have w': "\<bar>v' * q\<bar> \<le> 16000000"
    using mult_mono [of "\<bar>v'\<bar>" 1600 "\<bar>q\<bar>" 10000] v' qq(2) by (simp add: abs_mult)
  have x: "\<bar>f_div (f_mul v q) 1000 - v' * q / 1000\<bar> \<le> 272002 / 2 ^ 53"
    by (rule f_div_err [OF w w', of _ 16001]) simp_all
  have x': "\<bar>v' * q / 1000\<bar> \<le> 16000"
    using w' by simp
  have c100: "\<bar>(100::real) - 100\<bar> \<le> 0" "\<bar>100::real\<bar> \<le> 100" by simp_all
  have y: "\<bar>f_mul (f_div (f_mul v q) 1000) 100 - v' * q / 1000 * 100\<bar> \<le> 1 / 10 ^ 8"
    by (rule f_mul_err [OF x c100(1) x' c100(2), of 1600001]) simp_all
  define y where "y = f_mul (f_div (f_mul v q) 1000) 100"
  define n where "n = \<lfloor>y + 1 / 2\<rfloor>"
  have mr: "Math_round y = of_int n" by (simp add: Math_round_def n_def)
  have "\<bar>Math_round y - y\<bar> \<le> 1 / 2" by (rule Math_round_bounds)
  then have ny: "\<bar>of_int n - y\<bar> \<le> 1 / 2" by (simp add: mr)
  have yx: "\<bar>y - v' * q / 1000 * 100\<bar> \<le> 1 / 10 ^ 8"
    using y by (simp add: y_def)
  have n100: "\<bar>of_int n - v' * q / 1000 * 100\<bar> \<le> 1 / 2 + 1 / 10 ^ 8"
    using ny yx by linarith
  then have n1: "\<bar>of_int n / 100 - v' * q / 1000\<bar> \<le> 1 / 200 + 1 / 10 ^ 10"
    by (simp add: field_simps abs_le_iff)
  have nb: "\<bar>real_of_int n / 100\<bar> \<le> 16001"
  proof -
    have "(1::real) / 200 + 1 / 10 ^ 10 \<le> 1" by simp
    then show ?thesis using n1 x' by linarith
  qed
  have "min_normal \<le> 16001" using min_normal_le_1 by linarith
  then have "\<bar>binary64 (of_int n / 100) - of_int n / 100\<bar> \<le> 16001 / 2 ^ 53"
    using nb by (intro binary64_err)
  moreover have "(16001::real) / 2 ^ 53 + (1 / 200 + 1 / 10 ^ 10) \<le> 1 / 200 + 1 / 10 ^ 9"
    by simp
  ultimately have out:
    "\<bar>binary64 (of_int n / 100) - v' * q / 1000\<bar> \<le> 1 / 200 + 1 / 10 ^ 9"
    using n1 by linarith
  have "kpi_tail v q = f_div (Math_round y) 100"
    by (simp only: kpi_tail_def y_def)
  then have k: "kpi_tail v q = binary64 (of_int n / 100)"
    by (simp only: mr f_div_def)
  show ?thesis
    using k n1 out by (intro exI [of _ n]) simp
qed

lemma literal_err:
  assumes "\<bar>x\<bar> \<le> B" and "1 \<le> B"
  shows "\<bar>binary64 x - x\<bar> \<le> B / 2 ^ 53"
proof -
  have "min_normal \<le> B" using min_normal_le_1 assms(2) by linarith
  then show ?thesis using assms(1) by (intro binary64_err)
qed

lemma co2Footprint_tail:
  "co2Footprint (calculateKPIs s) = kpi_tail (code_co2_rate (inputs s)) (quantity (inputs s))"
  by (simp add: calculateKPIs_def Let_def kpi_tail_def code_co2_rate_def
      code_materialCo2_def code_endOfLifeBonus_def)

lemma spec_co2_rate: "spec_co2 inp = spec_co2_rate inp * quantity inp / 1000"
  by (simp add: spec_co2_def spec_co2_rate_def)

lemma base_co2_err:
  "\<bar>co2 (baseValues m) - co2 (spec_baseValues m)\<bar> \<le> 16 / 2 ^ 53"
  "\<bar>co2 (spec_baseValues m)\<bar> \<le> 12"
proof -
  have "\<bar>binary64 (119 / 10) - 119 / 10\<bar> \<le> 16 / 2 ^ 53"
    using literal_err [of "119 / 10" 16] by simp
  moreover have "\<bar>binary64 (42 / 10) - 42 / 10\<bar> \<le> 16 / 2 ^ 53"
    using literal_err [of "42 / 10" 16] by simp
  ultimately show "\<bar>co2 (baseValues m) - co2 (spec_baseValues m)\<bar> \<le> 16 / 2 ^ 53"
    by (cases m) (simp_all add: baseValues_def spec_baseValues_def)
  show "\<bar>co2 (spec_baseValues m)\<bar> \<le> 12"
    by (cases m) (simp_all add: spec_baseValues_def)
qed

lemma materialCo2_err:
  "\<bar>code_materialCo2 ms - spec_materialFactor ms\<bar> \<le> 3 / 2 ^ 53"
  "\<bar>spec_materialFactor ms\<bar> \<le> 1"
proof -
  have l: "\<bar>binary64 (15 / 100) - 15 / 100\<bar> \<le> 1 / 2 ^ 53"
    using literal_err [of "15 / 100" 1] by simp
  have "\<bar>f_mul 1 (binary64 (15 / 100)) - 1 * (15 / 100)\<bar> \<le> 3 / 2 ^ 53"
    by (rule f_mul_err [OF _ l, of 1 1 0 1 1 2]) simp_all
  then show "\<bar>code_materialCo2 ms - spec_materialFactor ms\<bar> \<le> 3 / 2 ^ 53"
    by (cases ms) (simp_all add: code_materialCo2_def spec_materialFactor_def)
  show "\<bar>spec_materialFactor ms\<bar> \<le> 1"
    by (cases ms) (simp_all add: spec_materialFactor_def)
qed

lemma energyFactors_err:
  "\<bar>energyFactors e - spec_energyFactor e\<bar> \<le> 2 / 2 ^ 53"
  "\<bar>spec_energyFactor e\<bar> \<le> 2"
proof -
  have "\<bar>binary64 (15 / 10) - 15 / 10\<bar> \<le> 2 / 2 ^ 53"
    using literal_err [of "15 / 10" 2] by simp
  moreover have "\<bar>binary64 (1 / 10) - 1 / 10\<bar> \<le> 2 / 2 ^ 53"
    using literal_err [of "1 / 10" 2] by simp
  ultimately show "\<bar>energyFactors e - spec_energyFactor e\<bar> \<le> 2 / 2 ^ 53"
    by (cases e) (simp_all add: energyFactors_def spec_energyFactor_def)
  show "\<bar>spec_energyFactor e\<bar> \<le> 2"
    by (cases e) (simp_all add: spec_energyFactor_def)
qed

lemma endOfLifeBonus_err:
  "\<bar>code_endOfLifeBonus eol - spec_endOfLifeFactor eol\<bar> \<le> 1 / 2 ^ 53"
  "\<bar>spec_endOfLifeFactor eol\<bar> \<le> 1"
proof -
  have "\<bar>binary64 (8 / 10) - 8 / 10\<bar> \<le> 1 / 2 ^ 53"
    using literal_err [of "8 / 10" 1] by simp
  then show "\<bar>code_endOfLifeBonus eol - spec_endOfLifeFactor eol\<bar> \<le> 1 / 2 ^ 53"
    by (cases eol) (simp_all add: code_endOfLifeBonus_def spec_endOfLifeFactor_def)
  show "\<bar>spec_endOfLifeFactor eol\<bar> \<le> 1"
    by (cases eol) (simp_all add: spec_endOfLifeFactor_def)
qed

lemma co2_rate_err:
  assumes d0: "0 \<le> transportDistance inp" and d1: "transportDistance inp \<le> 10000"
  shows "\<bar>code_co2_rate inp - spec_co2_rate inp\<bar> \<le> 24000 / 2 ^ 53"
    and "\<bar>spec_co2_rate inp\<bar> \<le> 1600"
proof -
  let ?c = "co2 (spec_baseValues (metal inp))"
  let ?mf = "spec_materialFactor (materialSource inp)"
  let ?ef = "spec_energyFactor (energySource inp)"
  let ?el = "spec_endOfLifeFactor (endOfLife inp)"
  let ?d = "transportDistance inp"
  have m: "\<bar>f_mul (code_materialCo2 (materialSource inp)) (energyFactors (energySource inp))
             - ?mf * ?ef\<bar> \<le> 12 / 2 ^ 53"
    by (rule f_mul_err [OF materialCo2_err(1) energyFactors_err(1) materialCo2_err(2)
          energyFactors_err(2), of 3]) simp_all
  have m': "\<bar>?mf * ?ef\<bar> \<le> 2"
    using mult_mono [of "\<bar>?mf\<bar>" 1 "\<bar>?ef\<bar>" 2] materialCo2_err(2) energyFactors_err(2)
    by (simp add: abs_mult)
  have p: "\<bar>f_mul (co2 (baseValues (metal inp)))
               (f_mul (code_materialCo2 (materialSource inp))
                  (energyFactors (energySource inp)))
             - ?c * (?mf * ?ef)\<bar> \<le> 202 / 2 ^ 53"
    by (rule f_mul_err [OF base_co2_err(1) m base_co2_err(2) m', of 25]) simp_all
  have p': "\<bar>?c * (?mf * ?ef)\<bar> \<le> 24"
    using mult_mono [of "\<bar>?c\<bar>" 12 "\<bar>?mf * ?ef\<bar>" 2] base_co2_err(2) m'
    by (simp add: abs_mult)
  have dd: "\<bar>?d - ?d\<bar> \<le> 0" "\<bar>?d\<bar> \<le> 10000" using d0 d1 by simp_all
  have l: "\<bar>binary64 (1 / 10000) - 1 / 10000\<bar> \<le> 1 / 2 ^ 53" "\<bar>1 / 10000 :: real\<bar> \<le> 1"
    using literal_err [of "1 / 10000" 1] by simp_all
  have t: "\<bar>f_mul ?d (binary64 (1 / 10000)) - ?d * (1 / 10000)\<bar> \<le> 20001 / 2 ^ 53"
    by (rule f_mul_err [OF dd(1) l(1) dd(2) l(2), of 10001]) simp_all
  have t': "\<bar>?d * (1 / 10000)\<bar> \<le> 1"
    using d0 d1 by simp
  have s: "\<bar>f_add (f_mul (co2 (baseValues (metal inp)))
               (f_mul (code_materialCo2 (materialSource inp))
                  (energyFactors (energySource inp))))
               (f_mul ?d (binary64 (1 / 10000)))
             - (?c * (?mf * ?ef) + ?d * (1 / 10000))\<bar> \<le> 20229 / 2 ^ 53"
    by (rule f_add_err [OF p t p' t', of 26]) simp_all
  have s': "\<bar>?c * (?mf * ?ef) + ?d * (1 / 10000)\<bar> \<le> 25"
    using p' t' by linarith
  have r: "\<bar>f_mul (f_add (f_mul (co2 (baseValues (metal inp)))
               (f_mul (code_materialCo2 (materialSource inp))
                  (energyFactors (energySource inp))))
               (f_mul ?d (binary64 (1 / 10000))))
              (code_endOfLifeBonus (endOfLife inp))
             - (?c * (?mf * ?ef) + ?d * (1 / 10000)) * ?el\<bar> \<le> 24000 / 2 ^ 53"
    by (rule f_mul_err [OF s endOfLifeBonus_err(1) s' endOfLifeBonus_err(2), of 26]) simp_all
  then show "\<bar>code_co2_rate inp - spec_co2_rate inp\<bar> \<le> 24000 / 2 ^ 53"
    by (simp add: code_co2_rate_def spec_co2_rate_def)
  have "\<bar>(?c * (?mf * ?ef) + ?d * (1 / 10000)) * ?el\<bar> \<le> 25 * 1"
    unfolding abs_mult using s' endOfLifeBonus_err(2) by (intro mult_mono) simp_all
  then show "\<bar>spec_co2_rate inp\<bar> \<le> 1600"
    by (simp add: spec_co2_rate_def)
qed

lemma co2Footprint_err:
  assumes "0 \<le> transportDistance (inputs s)" and "transportDistance (inputs s) \<le> 10000"
    and "0 \<le> quantity (inputs s)" and "quantity (inputs s) \<le> 10000"
  shows "\<exists>n::int. co2Footprint (calculateKPIs s) = binary64 (of_int n / 100)
           \<and> \<bar>of_int n / 100 - spec_co2 (inputs s)\<bar> \<le> 1 / 200 + 1 / 10 ^ 10
           \<and> \<bar>co2Footprint (calculateKPIs s) - spec_co2 (inputs s)\<bar> \<le> 1 / 200 + 1 / 10 ^ 9"
  unfolding co2Footprint_tail spec_co2_rate
  by (rule kpi_tail_err [OF co2_rate_err [OF assms(1,2)] assms(3,4)])

lemma energyUse_tail:
  "energyUse (calculateKPIs s)
     = kpi_tail (f_mul (energy (baseValues (metal (inputs s))))
                  (code_materialEnergy (materialSource (inputs s))))
         (quantity (inputs s))"
  by (simp add: calculateKPIs_def Let_def kpi_tail_def code_materialEnergy_def)

lemma waterUse_tail:
  "waterUse (calculateKPIs s)
     = kpi_tail (f_mul (water (baseValues (metal (inputs s))))
                  (code_materialWater (materialSource (inputs s))))
         (quantity (inputs s))"
  by (simp add: calculateKPIs_def Let_def kpi_tail_def code_materialWater_def)

lemma spec_energy_rate: "spec_energy inp = spec_energy_rate inp * quantity inp / 1000"
  by (simp add: spec_energy_def spec_energy_rate_def)

lemma spec_water_rate: "spec_water inp = spec_water_rate inp * quantity inp / 1000"
  by (simp add: spec_water_def spec_water_rate_def)

lemma unit_factor_err:
  assumes "\<bar>x\<bar> \<le> 1"
  shows "\<bar>f_mul 1 (binary64 x) - x\<bar> \<le> 3 / 2 ^ 53"
proof -
  have l: "\<bar>binary64 x - x\<bar> \<le> 1 / 2 ^ 53"
    using literal_err [OF assms] by simp
  have "\<bar>f_mul 1 (binary64 x) - 1 * x\<bar> \<le> 3 / 2 ^ 53"
    by (rule f_mul_err [OF _ l _ assms, of 1 1 0 1 2]) simp_all
  then show ?thesis by simp
qed

lemma energy_rate_err:
  "\<bar>f_mul (energy (baseValues (metal inp))) (code_materialEnergy (materialSource inp))
     - spec_energy_rate inp\<bar> \<le> 24000 / 2 ^ 53"
  "\<bar>spec_energy_rate inp\<bar> \<le> 1600"
proof -
  let ?E = "energy (spec_baseValues (metal inp))"
  let ?f = "spec_materialEnergy (materialSource inp)"
  have b: "energy (baseValues (metal inp)) = ?E" "\<bar>?E\<bar> \<le> 170"
    by (cases "metal inp"; simp add: baseValues_def spec_baseValues_def)+
  have "\<bar>f_mul 1 (binary64 (5 / 100)) - 5 / 100\<bar> \<le> 3 / 2 ^ 53"
    by (rule unit_factor_err) simp
  then have f: "\<bar>code_materialEnergy (materialSource inp) - ?f\<bar> \<le> 3 / 2 ^ 53"
    by (cases "materialSource inp")
       (simp_all add: code_materialEnergy_def spec_materialEnergy_def)
  have f': "\<bar>?f\<bar> \<le> 1"
    by (cases "materialSource inp") (simp_all add: spec_materialEnergy_def)
  have e0: "\<bar>?E - ?E\<bar> \<le> 0" by simp
  have "\<bar>f_mul ?E (code_materialEnergy (materialSource inp)) - ?E * ?f\<bar> \<le> 24000 / 2 ^ 53"
    by (rule f_mul_err [OF e0 f b(2) f', of 171]) simp_all
  then show "\<bar>f_mul (energy (baseValues (metal inp))) (code_materialEnergy (materialSource inp))
     - spec_energy_rate inp\<bar> \<le> 24000 / 2 ^ 53"
    by (simp add: b(1) spec_energy_rate_def)
  have "\<bar>?E * ?f\<bar> \<le> 170 * 1"
    unfolding abs_mult using b(2) f' by (intro mult_mono) simp_all
  then show "\<bar>spec_energy_rate inp\<bar> \<le> 1600"
    by (simp add: spec_energy_rate_def)
qed

lemma water_rate_err:
  "\<bar>f_mul (water (baseValues (metal inp))) (code_materialWater (materialSource inp))
     - spec_water_rate inp\<bar> \<le> 24000 / 2 ^ 53"
  "\<bar>spec_water_rate inp\<bar> \<le> 1600"
proof -
  let ?W = "water (spec_baseValues (metal inp))"
  let ?f = "spec_materialWater (materialSource inp)"
  have b: "water (baseValues (metal inp)) = ?W" "\<bar>?W\<bar> \<le> 1550"
    by (cases "metal inp"; simp add: baseValues_def spec_baseValues_def)+
  have "\<bar>f_mul 1 (binary64 (30 / 100)) - 30 / 100\<bar> \<le> 3 / 2 ^ 53"
    by (rule unit_factor_err) simp
  then have f: "\<bar>code_materialWater (materialSource inp) - ?f\<bar> \<le> 3 / 2 ^ 53"
    by (cases "materialSource inp")
       (simp_all add: code_materialWater_def spec_materialWater_def)
  have f': "\<bar>?f\<bar> \<le> 1"
    by (cases "materialSource inp") (simp_all add: spec_materialWater_def)
  have e0: "\<bar>?W - ?W\<bar> \<le> 0" by simp
  have "\<bar>f_mul ?W (code_materialWater (materialSource inp)) - ?W * ?f\<bar> \<le> 24000 / 2 ^ 53"
    by (rule f_mul_err [OF e0 f b(2) f', of 1551]) simp_all
  then show "\<bar>f_mul (water (baseValues (metal inp))) (code_materialWater (materialSource inp))
     - spec_water_rate inp\<bar> \<le> 24000 / 2 ^ 53"
    by (simp add: b(1) spec_water_rate_def)
  have "\<bar>?W * ?f\<bar> \<le> 1550 * 1"
    unfolding abs_mult using b(2) f' by (intro mult_mono) simp_all
  then show "\<bar>spec_water_rate inp\<bar> \<le> 1600"
    by (simp add: spec_water_rate_def)
qed

lemma energyUse_err:
  assumes "0 \<le> quantity (inputs s)" and "quantity (inputs s) \<le> 10000"
  shows "\<bar>energyUse (calculateKPIs s) - spec_energy (inputs s)\<bar> \<le> 1 / 200 + 1 / 10 ^ 9"
  using kpi_tail_err [OF energy_rate_err assms]
  unfolding energyUse_tail spec_energy_rate by blast

lemma waterUse_err:
  assumes "0 \<le> quantity (inputs s)" and "quantity (inputs s) \<le> 10000"
  shows "\<bar>waterUse (calculateKPIs s) - spec_water (inputs s)\<bar> \<le> 1 / 200 + 1 / 10 ^ 9"
  using kpi_tail_err [OF water_rate_err assms]
  unfolding waterUse_tail spec_water_rate by blast

lemma spec_scaleQuantity:
  "spec_co2 (inputs (scaleQuantity k s)) = k * spec_co2 (inputs s)"
  "spec_energy (inputs (scaleQuantity k s)) = k * spec_energy (inputs s)"
  "spec_water (inputs (scaleQuantity k s)) = k * spec_water (inputs s)"
  by (simp_all add: spec_co2_def spec_energy_def spec_water_def scaleQuantity_def)

lemma scaling_triangle:
  assumes "\<bar>a - k * x\<bar> \<le> e" and "\<bar>b - x\<bar> \<le> e" and "0 \<le> (k::real)"
  shows "\<bar>a - k * b\<bar> \<le> (k + 1) * e"
proof -
  have "k * \<bar>b - x\<bar> \<le> k * e"
    using assms(2,3) by (rule mult_left_mono)
  then have "\<bar>k * b - k * x\<bar> \<le> k * e"
    using assms(3) by (simp add: abs_mult right_diff_distrib [symmetric])
  then have "\<bar>a - k * b\<bar> \<le> e + k * e"
    using assms(1) by linarith
  then show ?thesis by (simp add: algebra_simps)
qed

lemma Math_round_mono: "x \<le> y \<Longrightarrow> Math_round x \<le> Math_round y"
  unfolding Math_round_def by (simp add: floor_mono)

lemma f_mul_mono_left: "0 \<le> c \<Longrightarrow> a \<le> b \<Longrightarrow> f_mul a c \<le> f_mul b c"
  unfolding f_mul_def by (intro binary64_mono mult_right_mono)

lemma f_mul_mono_right: "0 \<le> c \<Longrightarrow> a \<le> b \<Longrightarrow> f_mul c a \<le> f_mul c b"
  unfolding f_mul_def by (intro binary64_mono mult_left_mono)

lemma f_add_mono_left: "a \<le> b \<Longrightarrow> f_add a c \<le> f_add b c"
  unfolding f_add_def by (intro binary64_mono add_right_mono)

lemma f_div_mono: "0 \<le> c \<Longrightarrow> a \<le> b \<Longrightarrow> f_div a c \<le> f_div b c"
  unfolding f_div_def by (intro binary64_mono divide_right_mono)

lemma f_mul_nonneg: "0 \<le> a \<Longrightarrow> 0 \<le> b \<Longrightarrow> 0 \<le> f_mul a b"
  unfolding f_mul_def by (intro binary64_nonneg mult_nonneg_nonneg)

lemma kpi_tail_mono:
  assumes "0 \<le> q" and "v \<le> v'"
  shows "kpi_tail v q \<le> kpi_tail v' q"
  unfolding kpi_tail_def using assms
  by (intro f_div_mono Math_round_mono f_mul_mono_left) simp_all

lemma binary64_1 [simp]: "binary64 1 = 1"
  by code_simp

lemma energyFactors_least: "energyFactors Renewables \<le> energyFactors e"
proof (cases e)
  case Coal
  have "binary64 (1 / 10) \<le> binary64 (15 / 10)"
    by (rule binary64_mono) simp
  then show ?thesis using Coal by (simp add: energyFactors_def)
next
  case Grid
  have "binary64 (1 / 10) \<le> binary64 1"
    by (rule binary64_mono) simp
  then show ?thesis using Grid by (simp add: energyFactors_def)
next
  case Renewables
  then show ?thesis by simp
qed

lemma code_factors_nonneg:
  "0 \<le> co2 (baseValues m)" "0 \<le> code_materialCo2 ms" "0 \<le> code_endOfLifeBonus eol"
proof -
  show "0 \<le> co2 (baseValues m)"
    by (cases m) (simp_all add: baseValues_def binary64_nonneg)
  show "0 \<le> code_materialCo2 ms"
    by (simp add: code_materialCo2_def f_mul_nonneg binary64_nonneg)
  show "0 \<le> code_endOfLifeBonus eol"
    by (simp add: code_endOfLifeBonus_def binary64_nonneg)
qed

lemma code_co2_rate_mono_energy:
  "code_co2_rate (inputs (withEnergySource Renewables s))
     \<le> code_co2_rate (inputs (withEnergySource e s))"
  unfolding code_co2_rate_def withEnergySource_def
  by (simp, intro f_mul_mono_left f_add_mono_left f_mul_mono_right
        code_factors_nonneg energyFactors_least)

lemma co2Footprint_inputs_only:
  "inputs s = inputs s' \<Longrightarrow> co2Footprint (calculateKPIs s) = co2Footprint (calculateKPIs s')"
  by (simp add: co2Footprint_tail)

lemma co2Footprint_transportMode:
  "co2Footprint (calculateKPIs (s\<lparr>inputs := (inputs s)\<lparr>transportMode := tm\<rparr>\<rparr>))
     = co2Footprint (calculateKPIs s)"
  by (simp add: co2Footprint_tail code_co2_rate_def)

lemma co2Footprint_conventional:
  "co2Footprint (calculateKPIs conventionalScenario) = binary64 (1195 / 100)"
  by code_simp

section \<open>Properties of the KPI calculation\<close>

text \<open>
  At a decimal tie the double computation can fall on the other side. For aluminum,
  primary, coal, 0 km, landfill and 3900 kg the formula gives exactly 69.615, which
  rounds to 69.62; the product computed in doubles is just below 69.615, and the
  calculator returns 69.61.
\<close>

theorem C1_tie_counterexample:
  "co2Footprint (calculateKPIs (conventionalScenario
       \<lparr>inputs := (inputs conventionalScenario)
          \<lparr>energySource := Coal, transportDistance := 0, quantity := 3900\<rparr>\<rparr>))
     = binary64 (6961 / 100)
   \<and> spec_co2 ((inputs conventionalScenario)
          \<lparr>energySource := Coal, transportDistance := 0, quantity := 3900\<rparr>) = 69615 / 1000
   \<and> Math_round (spec_co2 ((inputs conventionalScenario)
          \<lparr>energySource := Coal, transportDistance := 0, quantity := 3900\<rparr>) * 100) / 100
       = 6962 / 100
   \<and> binary64 (6961 / 100) \<noteq> binary64 (6962 / 100)
   \<and> binary64 (6961 / 100) < 6962 / 100 - 99 / 10000"
  by code_simp

text \<open>
  Claim C1, in double arithmetic. For every scenario with 0 \<le> transport distance \<le> 10000
  and 0 \<le> quantity \<le> 10000, the calculator's \<open>co2Footprint\<close> is the double nearest to
  n/100 for an integer n, and n/100 lies within 0.005 + 10^-10 of the specification's
  formula, (base.co2 times the combined material/energy multiplier plus 0.0001 per km)
  times the end-of-life factor times quantity/1000: the formula rounded to two decimal
  places, except that at a tie between two hundredths either neighbour can be returned.
  For aluminum, primary, grid, 500 km, landfill and 1000 kg the result is 11.95.
\<close>

theorem C1_co2_footprint_formula:
  "(0 \<le> transportDistance (inputs s) \<and> transportDistance (inputs s) \<le> 10000
      \<and> 0 \<le> quantity (inputs s) \<and> quantity (inputs s) \<le> 10000 \<longrightarrow>
      (\<exists>n::int. co2Footprint (calculateKPIs s) = binary64 (of_int n / 100)
          \<and> \<bar>of_int n / 100 - spec_co2 (inputs s)\<bar> \<le> 1 / 200 + 1 / 10 ^ 10
          \<and> \<bar>co2Footprint (calculateKPIs s) - spec_co2 (inputs s)\<bar> \<le> 1 / 200 + 1 / 10 ^ 9))
   \<and> (metal (inputs s) = Aluminum \<and> materialSource (inputs s) = Primary
      \<and> energySource (inputs s) = Grid \<and> transportDistance (inputs s) = 500
      \<and> endOfLife (inputs s) = Landfill \<and> quantity (inputs s) = 1000 \<longrightarrow>
      co2Footprint (calculateKPIs s) = binary64 (1195 / 100))"
proof (intro conjI impI)
  assume "0 \<le> transportDistance (inputs s) \<and> transportDistance (inputs s) \<le> 10000
      \<and> 0 \<le> quantity (inputs s) \<and> quantity (inputs s) \<le> 10000"
  then show "\<exists>n::int. co2Footprint (calculateKPIs s) = binary64 (of_int n / 100)
          \<and> \<bar>of_int n / 100 - spec_co2 (inputs s)\<bar> \<le> 1 / 200 + 1 / 10 ^ 10
          \<and> \<bar>co2Footprint (calculateKPIs s) - spec_co2 (inputs s)\<bar> \<le> 1 / 200 + 1 / 10 ^ 9"
    by (intro co2Footprint_err) simp_all
next
  assume a: "metal (inputs s) = Aluminum \<and> materialSource (inputs s) = Primary
      \<and> energySource (inputs s) = Grid \<and> transportDistance (inputs s) = 500
      \<and> endOfLife (inputs s) = Landfill \<and> quantity (inputs s) = 1000"
  then have "inputs (s\<lparr>inputs := (inputs s)\<lparr>transportMode := Truck\<rparr>\<rparr>)
               = inputs conventionalScenario"
    by (simp add: conventionalScenario_def defaultInputs_def)
  then have "co2Footprint (calculateKPIs (s\<lparr>inputs := (inputs s)\<lparr>transportMode := Truck\<rparr>\<rparr>))
               = co2Footprint (calculateKPIs conventionalScenario)"
    by (rule co2Footprint_inputs_only)
  then show "co2Footprint (calculateKPIs s) = binary64 (1195 / 100)"
    by (simp only: co2Footprint_transportMode co2Footprint_conventional)
qed

theorem C1_co2_footprint_witness:
  "0 \<le> transportDistance (inputs conventionalScenario)
   \<and> transportDistance (inputs conventionalScenario) \<le> 10000
   \<and> 0 \<le> quantity (inputs conventionalScenario)
   \<and> quantity (inputs conventionalScenario) \<le> 10000
   \<and> metal (inputs conventionalScenario) = Aluminum
   \<and> materialSource (inputs conventionalScenario) = Primary
   \<and> energySource (inputs conventionalScenario) = Grid
   \<and> transportDistance (inputs conventionalScenario) = 500
   \<and> endOfLife (inputs conventionalScenario) = Landfill
   \<and> quantity (inputs conventionalScenario) = 1000
   \<and> co2Footprint (calculateKPIs conventionalScenario) = binary64 (1195 / 100)
   \<and> \<bar>co2Footprint (calculateKPIs conventionalScenario)
        - spec_co2 (inputs conventionalScenario)\<bar> \<le> 1 / 200 + 1 / 10 ^ 9"
proof -
  have r: "0 \<le> transportDistance (inputs conventionalScenario)
      \<and> transportDistance (inputs conventionalScenario) \<le> 10000
      \<and> 0 \<le> quantity (inputs conventionalScenario)
      \<and> quantity (inputs conventionalScenario) \<le> 10000"
    by (simp add: conventionalScenario_def defaultInputs_def)
  have i: "metal (inputs conventionalScenario) = Aluminum
      \<and> materialSource (inputs conventionalScenario) = Primary
      \<and> energySource (inputs conventionalScenario) = Grid
      \<and> transportDistance (inputs conventionalScenario) = 500
      \<and> endOfLife (inputs conventionalScenario) = Landfill
      \<and> quantity (inputs conventionalScenario) = 1000"
    by (simp add: conventionalScenario_def defaultInputs_def)
  from C1_co2_footprint_formula [of conventionalScenario] r i show ?thesis
    by blast
qed

text \<open>
  Exact proportionality fails on the rounded outputs. The conventional scenario at
  100 kg has a footprint of 1.195 before rounding, returned as 1.20; at ten times the
  quantity the calculator returns 11.95, which is less than ten times 1.20 by 0.05.
\<close>

theorem C3_linear_scaling_counterexample:
  "0 < quantity (inputs (conventionalScenario
         \<lparr>inputs := (inputs conventionalScenario)\<lparr>quantity := 100\<rparr>\<rparr>))
   \<and> co2Footprint (calculateKPIs (conventionalScenario
         \<lparr>inputs := (inputs conventionalScenario)\<lparr>quantity := 100\<rparr>\<rparr>))
       = binary64 (120 / 100)
   \<and> co2Footprint (calculateKPIs (conventionalScenario
         \<lparr>inputs := (inputs conventionalScenario)\<lparr>quantity := 10 * 100\<rparr>\<rparr>))
       = binary64 (1195 / 100)
   \<and> co2Footprint (calculateKPIs (conventionalScenario
         \<lparr>inputs := (inputs conventionalScenario)\<lparr>quantity := 10 * 100\<rparr>\<rparr>))
       < 10 * co2Footprint (calculateKPIs (conventionalScenario
         \<lparr>inputs := (inputs conventionalScenario)\<lparr>quantity := 100\<rparr>\<rparr>)) - 4 / 100"
  by code_simp

text \<open>
  Claim C3, up to rounding. For every scenario with quantity > 0 and every factor k > 0,
  with the quantity and k times the quantity at most 10000 and the transport distance
  between 0 and 10000, each of \<open>co2Footprint\<close>, \<open>energyUse\<close> and \<open>waterUse\<close> at
  k times the quantity differs from k times the output at the quantity by at most
  (k + 1) * (0.005 + 10^-9).
\<close>

theorem C3_scaling_up_to_rounding:
  assumes "0 < quantity (inputs s)" and "0 < k"
    and "quantity (inputs s) \<le> 10000" and "k * quantity (inputs s) \<le> 10000"
    and "0 \<le> transportDistance (inputs s)" and "transportDistance (inputs s) \<le> 10000"
  shows "\<bar>co2Footprint (calculateKPIs (scaleQuantity k s))
              - k * co2Footprint (calculateKPIs s)\<bar> \<le> (k + 1) * (1 / 200 + 1 / 10 ^ 9)
         \<and> \<bar>energyUse (calculateKPIs (scaleQuantity k s))
              - k * energyUse (calculateKPIs s)\<bar> \<le> (k + 1) * (1 / 200 + 1 / 10 ^ 9)
         \<and> \<bar>waterUse (calculateKPIs (scaleQuantity k s))
              - k * waterUse (calculateKPIs s)\<bar> \<le> (k + 1) * (1 / 200 + 1 / 10 ^ 9)"
proof -
  let ?s' = "scaleQuantity k s"
  have k: "0 \<le> k" using assms(2) by simp
  have q: "0 \<le> quantity (inputs s)" using assms(1) by simp
  have q': "0 \<le> quantity (inputs ?s')" "quantity (inputs ?s') \<le> 10000"
    using assms(1,2,4) by (simp_all add: scaleQuantity_def)
  have d': "0 \<le> transportDistance (inputs ?s')" "transportDistance (inputs ?s') \<le> 10000"
    using assms(5,6) by (simp_all add: scaleQuantity_def)
  have c1: "\<bar>co2Footprint (calculateKPIs ?s') - k * spec_co2 (inputs s)\<bar>
              \<le> 1 / 200 + 1 / 10 ^ 9"
    using co2Footprint_err [OF d' q'] unfolding spec_scaleQuantity by blast
  have c2: "\<bar>co2Footprint (calculateKPIs s) - spec_co2 (inputs s)\<bar> \<le> 1 / 200 + 1 / 10 ^ 9"
    using co2Footprint_err [OF assms(5,6) q assms(3)] by blast
  have e1: "\<bar>energyUse (calculateKPIs ?s') - k * spec_energy (inputs s)\<bar>
              \<le> 1 / 200 + 1 / 10 ^ 9"
    using energyUse_err [OF q'] unfolding spec_scaleQuantity .
  have e2: "\<bar>energyUse (calculateKPIs s) - spec_energy (inputs s)\<bar> \<le> 1 / 200 + 1 / 10 ^ 9"
    by (rule energyUse_err [OF q assms(3)])
  have w1: "\<bar>waterUse (calculateKPIs ?s') - k * spec_water (inputs s)\<bar>
              \<le> 1 / 200 + 1 / 10 ^ 9"
    using waterUse_err [OF q'] unfolding spec_scaleQuantity .
  have w2: "\<bar>waterUse (calculateKPIs s) - spec_water (inputs s)\<bar> \<le> 1 / 200 + 1 / 10 ^ 9"
    by (rule waterUse_err [OF q assms(3)])
  show ?thesis
    by (intro conjI scaling_triangle [OF c1 c2 k] scaling_triangle [OF e1 e2 k]
          scaling_triangle [OF w1 w2 k])
qed

theorem C3_scaling_witness:
  "0 < quantity (inputs conventionalScenario) \<and> (0::real) < 2
   \<and> quantity (inputs conventionalScenario) \<le> 10000
   \<and> 2 * quantity (inputs conventionalScenario) \<le> 10000
   \<and> 0 \<le> transportDistance (inputs conventionalScenario)
   \<and> transportDistance (inputs conventionalScenario) \<le> 10000
   \<and> \<bar>co2Footprint (calculateKPIs (scaleQuantity 2 conventionalScenario))
        - 2 * co2Footprint (calculateKPIs conventionalScenario)\<bar>
       \<le> 3 * (1 / 200 + 1 / 10 ^ 9)"
  using C3_scaling_up_to_rounding [of conventionalScenario 2]
  by (simp add: conventionalScenario_def defaultInputs_def)

text \<open>
  Claim C5. With \<open>materialSource = recycled\<close> the calculator returns
  \<open>recycledContent = 85\<close> and \<open>costSavings = 1250\<close>, with \<open>primary\<close> both are 0,
  whatever the other inputs and the scenario type; \<open>circularityIndex\<close> is 75 for a
  circular scenario and 25 otherwise, whatever the inputs.
\<close>

theorem C5_recycled_constants:
  "(materialSource (inputs s) = Recycled \<longrightarrow>
      recycledContent (calculateKPIs s) = 85 \<and> costSavings (calculateKPIs s) = 1250)
   \<and> (materialSource (inputs s) = Primary \<longrightarrow>
      recycledContent (calculateKPIs s) = 0 \<and> costSavings (calculateKPIs s) = 0)
   \<and> (scenario_type s = Circular \<longrightarrow> circularityIndex (calculateKPIs s) = 75)
   \<and> (scenario_type s \<noteq> Circular \<longrightarrow> circularityIndex (calculateKPIs s) = 25)"
  by (simp add: calculateKPIs_def Let_def)

theorem C5_recycled_constants_witness:
  "materialSource (inputs circularScenario) = Recycled
   \<and> scenario_type circularScenario = Circular
   \<and> recycledContent (calculateKPIs circularScenario) = 85
   \<and> costSavings (calculateKPIs circularScenario) = 1250
   \<and> circularityIndex (calculateKPIs circularScenario) = 75
   \<and> materialSource (inputs conventionalScenario) = Primary
   \<and> scenario_type conventionalScenario \<noteq> Circular
   \<and> recycledContent (calculateKPIs conventionalScenario) = 0
   \<and> costSavings (calculateKPIs conventionalScenario) = 0
   \<and> circularityIndex (calculateKPIs conventionalScenario) = 25"
  using C5_recycled_constants [of circularScenario]
    C5_recycled_constants [of conventionalScenario]
  by (simp add: circularScenario_def conventionalScenario_def defaultInputs_def)

text \<open>
  Claim C7. The energy factors are coal 1.5, grid 1.0 and renewables 0.1 (the double
  nearest to 0.1), so renewables has the lowest; and for every choice of the other
  inputs with a quantity that is not negative (the data model has quantity > 0), the
  \<open>co2Footprint\<close> with renewables is no larger than with any other energy source.
\<close>

theorem C7_renewables_lowest:
  "energyFactors Coal = 15 / 10 \<and> energyFactors Grid = 1
   \<and> energyFactors Renewables = binary64 (1 / 10)
   \<and> \<bar>energyFactors Renewables - 1 / 10\<bar> \<le> 1 / 10 ^ 17
   \<and> energyFactors Renewables \<le> energyFactors e
   \<and> (0 \<le> quantity (inputs s) \<longrightarrow>
        co2Footprint (calculateKPIs (withEnergySource Renewables s))
          \<le> co2Footprint (calculateKPIs (withEnergySource e s)))"
proof (intro conjI impI)
  show "energyFactors Coal = 15 / 10"
    unfolding energyFactors_def by code_simp
  show "energyFactors Grid = 1" "energyFactors Renewables = binary64 (1 / 10)"
    by (simp_all add: energyFactors_def)
  show "\<bar>energyFactors Renewables - 1 / 10\<bar> \<le> 1 / 10 ^ 17"
    unfolding energyFactors_def by code_simp
  show "energyFactors Renewables \<le> energyFactors e"
    by (rule energyFactors_least)
  assume "0 \<le> quantity (inputs s)"
  then have q: "0 \<le> quantity (inputs (withEnergySource e s))"
    by (simp add: withEnergySource_def)
  have eq: "quantity (inputs (withEnergySource Renewables s))
              = quantity (inputs (withEnergySource e s))"
    by (simp add: withEnergySource_def)
  show "co2Footprint (calculateKPIs (withEnergySource Renewables s))
          \<le> co2Footprint (calculateKPIs (withEnergySource e s))"
    unfolding co2Footprint_tail eq
    by (rule kpi_tail_mono [OF q code_co2_rate_mono_energy])
qed

theorem C7_renewables_lowest_witness:
  "0 \<le> quantity (inputs conventionalScenario)
   \<and> co2Footprint (calculateKPIs (withEnergySource Renewables conventionalScenario))
       \<le> co2Footprint (calculateKPIs (withEnergySource Coal conventionalScenario))"
  using C7_renewables_lowest [of Coal conventionalScenario]
  by (simp add: conventionalScenario_def defaultInputs_def)

text \<open>
  Claim C8. Two scenarios that agree on metal, material source and quantity get the same
  \<open>energyUse\<close> and the same \<open>waterUse\<close>, whatever their energy source, transport
  distance and end-of-life option (and transport mode, name and scenario type).
\<close>

theorem C8_energy_water_noninterference:
  assumes "metal (inputs s) = metal (inputs s')"
    and "materialSource (inputs s) = materialSource (inputs s')"
    and "quantity (inputs s) = quantity (inputs s')"
  shows "energyUse (calculateKPIs s) = energyUse (calculateKPIs s')
         \<and> waterUse (calculateKPIs s) = waterUse (calculateKPIs s')"
  using assms by (simp add: calculateKPIs_def Let_def)

theorem C8_energy_water_witness:
  "metal (inputs conventionalScenario)
     = metal (defaultInputs\<lparr>energySource := Coal, transportDistance := 2000\<rparr>)
   \<and> energySource (inputs conventionalScenario) \<noteq> Coal
   \<and> transportDistance (inputs conventionalScenario) \<noteq> 2000
   \<and> endOfLife (inputs conventionalScenario) \<noteq> endOfLife defaultInputs
   \<and> energyUse (calculateKPIs conventionalScenario)
       = energyUse (calculateKPIs \<lparr>name = ''Coal'', scenario_type = Circular,
           inputs = defaultInputs\<lparr>energySource := Coal, transportDistance := 2000\<rparr>\<rparr>)
   \<and> waterUse (calculateKPIs conventionalScenario)
       = waterUse (calculateKPIs \<lparr>name = ''Coal'', scenario_type = Circular,
           inputs = defaultInputs\<lparr>energySource := Coal, transportDistance := 2000\<rparr>\<rparr>)"
  using C8_energy_water_noninterference [of conventionalScenario
      "\<lparr>name = ''Coal'', scenario_type = Circular,
        inputs = defaultInputs\<lparr>energySource := Coal, transportDistance := 2000\<rparr>\<rparr>"]
  by (simp add: conventionalScenario_def defaultInputs_def)

section \<open>Properties of the impact preview\<close>

text \<open>
  Claim C10. The preview is computed from the scenario type and the material source
  alone: a circular scenario shows 65 for the CO2 reduction and 45 for the energy
  savings, a conventional one 0 for both, whatever the inputs; the previewed recycled
  content is 85 when the material source is recycled and 0 otherwise.
\<close>

theorem C10_impact_preview_constants:
  "(scenario_type s = Circular \<longrightarrow>
      co2Reduction (getImpactPreview s) = 65 \<and> energySavings (getImpactPreview s) = 45)
   \<and> (scenario_type s = Conventional \<longrightarrow>
      co2Reduction (getImpactPreview s) = 0 \<and> energySavings (getImpactPreview s) = 0)
   \<and> (materialSource (inputs s) = Recycled \<longrightarrow>
      preview_recycledContent (getImpactPreview s) = 85)
   \<and> (materialSource (inputs s) \<noteq> Recycled \<longrightarrow>
      preview_recycledContent (getImpactPreview s) = 0)"
  by (simp add: getImpactPreview_def Let_def)

theorem C10_impact_preview_witness:
  "scenario_type circularScenario = Circular
   \<and> materialSource (inputs circularScenario) = Recycled
   \<and> co2Reduction (getImpactPreview circularScenario) = 65
   \<and> energySavings (getImpactPreview circularScenario) = 45
   \<and> preview_recycledContent (getImpactPreview circularScenario) = 85
   \<and> scenario_type conventionalScenario = Conventional
   \<and> materialSource (inputs conventionalScenario) \<noteq> Recycled
   \<and> co2Reduction (getImpactPreview conventionalScenario) = 0
   \<and> energySavings (getImpactPreview conventionalScenario) = 0
   \<and> preview_recycledContent (getImpactPreview conventionalScenario) = 0"
  using C10_impact_preview_constants [of circularScenario]
    C10_impact_preview_constants [of conventionalScenario]
  by (simp add: circularScenario_def conventionalScenario_def defaultInputs_def)

section \<open>Properties of the flow generation\<close>

lemma baseQuantity_err:
  assumes "0 \<le> q" and "q \<le> 10000"
  shows "\<bar>f_div q 1000 - q / 1000\<bar> \<le> 16 / 2 ^ 53" and "\<bar>f_div q 1000\<bar> \<le> 11"
proof -
  have q: "\<bar>q - q\<bar> \<le> 0" "\<bar>q\<bar> \<le> 10000" using assms by simp_all
  show e: "\<bar>f_div q 1000 - q / 1000\<bar> \<le> 16 / 2 ^ 53"
    by (rule f_div_err [OF q, of _ 10]) simp_all
  have "\<bar>q / 1000\<bar> \<le> 10" using assms by simp
  moreover have "(16::real) / 2 ^ 53 \<le> 1" by simp
  ultimately show "\<bar>f_div q 1000\<bar> \<le> 11" using e by linarith
qed

lemma share_err:
  assumes "\<bar>b\<bar> \<le> 11" and "\<bar>x\<bar> \<le> 1"
  shows "\<bar>f_mul b (binary64 x) - b * x\<bar> \<le> 23 / 2 ^ 53"
proof -
  have l: "\<bar>binary64 x - x\<bar> \<le> 1 / 2 ^ 53"
    using literal_err [OF assms(2)] by simp
  have b0: "\<bar>b - b\<bar> \<le> 0" by simp
  show ?thesis
    by (rule f_mul_err [OF b0 l assms, of 12]) simp_all
qed

text \<open>
  The sum of the material input edges is not always the base quantity. With a recycled
  source and 1700 kg the two edges carry 1.4449999999999998 and 0.255; their sum, exact
  or computed in doubles, is below 1.7 and below the double quotient 1700 / 1000.
\<close>

theorem C6_exact_sum_counterexample:
  "materialSource (inputs (circularScenario
       \<lparr>inputs := (inputs circularScenario)\<lparr>quantity := 1700\<rparr>\<rparr>)) = Recycled
   \<and> sum_list (map flow_value (materialInputEdges (generateFlowData (circularScenario
       \<lparr>inputs := (inputs circularScenario)\<lparr>quantity := 1700\<rparr>\<rparr>)))) < 1700 / 1000
   \<and> sum_list (map flow_value (materialInputEdges (generateFlowData (circularScenario
       \<lparr>inputs := (inputs circularScenario)\<lparr>quantity := 1700\<rparr>\<rparr>)))) < f_div 1700 1000
   \<and> sum_f64 (map flow_value (materialInputEdges (generateFlowData (circularScenario
       \<lparr>inputs := (inputs circularScenario)\<lparr>quantity := 1700\<rparr>\<rparr>)))) < f_div 1700 1000"
  by code_simp

text \<open>
  Claim C6, with the sum up to rounding. With a primary source the material input edges
  are the single edge Raw Materials to Production carrying quantity/1000; with a
  recycled source they are an edge Recycled Materials to Production carrying 0.85 times
  quantity/1000, followed by an edge Raw Materials to Production carrying 0.15 times
  quantity/1000, each product rounded to a double. For 0 \<le> quantity \<le> 10000 their sum
  is within 10^-14 of quantity/1000.
\<close>

theorem C6_material_input_edges:
  "(materialSource (inputs s) = Primary \<longrightarrow>
        materialInputEdges (generateFlowData s) =
          [\<lparr>flow_from = ''Raw Materials'', flow_to = ''Production'',
            flow_value = f_div (quantity (inputs s)) 1000, flow_type = FlowPrimary,
            icon = Some Factory\<rparr>])
   \<and> (materialSource (inputs s) = Recycled \<longrightarrow>
        materialInputEdges (generateFlowData s) =
          [\<lparr>flow_from = ''Recycled Materials'', flow_to = ''Production'',
            flow_value = f_mul (f_div (quantity (inputs s)) 1000) (binary64 (85 / 100)),
            flow_type = FlowRecycled, icon = Some Recycle\<rparr>,
           \<lparr>flow_from = ''Raw Materials'', flow_to = ''Production'',
            flow_value = f_mul (f_div (quantity (inputs s)) 1000) (binary64 (15 / 100)),
            flow_type = FlowPrimary, icon = Some Factory\<rparr>])
   \<and> (0 \<le> quantity (inputs s) \<and> quantity (inputs s) \<le> 10000 \<longrightarrow>
        \<bar>sum_list (map flow_value (materialInputEdges (generateFlowData s)))
           - quantity (inputs s) / 1000\<bar> \<le> 1 / 10 ^ 14)"
proof (intro conjI impI)
  show "materialSource (inputs s) = Primary \<Longrightarrow>
        materialInputEdges (generateFlowData s) =
          [\<lparr>flow_from = ''Raw Materials'', flow_to = ''Production'',
            flow_value = f_div (quantity (inputs s)) 1000, flow_type = FlowPrimary,
            icon = Some Factory\<rparr>]"
    by (simp add: generateFlowData_def materialInputEdges_def Let_def)
  show "materialSource (inputs s) = Recycled \<Longrightarrow>
        materialInputEdges (generateFlowData s) =
          [\<lparr>flow_from = ''Recycled Materials'', flow_to = ''Production'',
            flow_value = f_mul (f_div (quantity (inputs s)) 1000) (binary64 (85 / 100)),
            flow_type = FlowRecycled, icon = Some Recycle\<rparr>,
           \<lparr>flow_from = ''Raw Materials'', flow_to = ''Production'',
            flow_value = f_mul (f_div (quantity (inputs s)) 1000) (binary64 (15 / 100)),
            flow_type = FlowPrimary, icon = Some Factory\<rparr>]"
    by (simp add: generateFlowData_def materialInputEdges_def Let_def)
  assume "0 \<le> quantity (inputs s) \<and> quantity (inputs s) \<le> 10000"
  then have q: "0 \<le> quantity (inputs s)" "quantity (inputs s) \<le> 10000" by simp_all
  let ?b = "f_div (quantity (inputs s)) 1000"
  note b = baseQuantity_err [OF q]
  have v1: "\<bar>f_mul ?b (binary64 (85 / 100)) - ?b * (85 / 100)\<bar> \<le> 23 / 2 ^ 53"
    by (rule share_err [OF b(2)]) simp
  have v2: "\<bar>f_mul ?b (binary64 (15 / 100)) - ?b * (15 / 100)\<bar> \<le> 23 / 2 ^ 53"
    by (rule share_err [OF b(2)]) simp
  have small: "(62::real) / 2 ^ 53 \<le> 1 / 10 ^ 14" by simp
  show "\<bar>sum_list (map flow_value (materialInputEdges (generateFlowData s)))
           - quantity (inputs s) / 1000\<bar> \<le> 1 / 10 ^ 14"
  proof (cases "materialSource (inputs s)")
    case Primary
    then have "sum_list (map flow_value (materialInputEdges (generateFlowData s))) = ?b"
      by (simp add: generateFlowData_def materialInputEdges_def Let_def)
    then show ?thesis using b(1) small by linarith
  next
    case Recycled
    then have "sum_list (map flow_value (materialInputEdges (generateFlowData s)))
                 = f_mul ?b (binary64 (85 / 100)) + f_mul ?b (binary64 (15 / 100))"
      by (simp add: generateFlowData_def materialInputEdges_def Let_def)
    then show ?thesis using b(1) v1 v2 small by linarith
  qed
qed

theorem C6_material_input_edges_witness:
  "materialSource (inputs conventionalScenario) = Primary
   \<and> materialSource (inputs circularScenario) = Recycled
   \<and> 0 \<le> quantity (inputs circularScenario) \<and> quantity (inputs circularScenario) \<le> 10000
   \<and> materialInputEdges (generateFlowData conventionalScenario) =
          [\<lparr>flow_from = ''Raw Materials'', flow_to = ''Production'',
            flow_value = f_div (quantity (inputs conventionalScenario)) 1000,
            flow_type = FlowPrimary, icon = Some Factory\<rparr>]
   \<and> \<bar>sum_list (map flow_value (materialInputEdges (generateFlowData circularScenario)))
        - quantity (inputs circularScenario) / 1000\<bar> \<le> 1 / 10 ^ 14"
proof -
  have h: "materialSource (inputs conventionalScenario) = Primary"
    "materialSource (inputs circularScenario) = Recycled"
    "0 \<le> quantity (inputs circularScenario) \<and> quantity (inputs circularScenario) \<le> 10000"
    by (simp_all add: conventionalScenario_def circularScenario_def defaultInputs_def)
  from C6_material_input_edges [of conventionalScenario]
    C6_material_input_edges [of circularScenario] h
  show ?thesis by blast
qed

text \<open>
  The edge from Recycling to Recycled Materials carries 85% of the base quantity, not 85%
  of what enters Recycling: for the circular scenario (1000 kg) its value is 0.85, more
  than 0.08 above 0.85 * 0.9 = 0.765, in exact and in double arithmetic.
\<close>

theorem C2_recycling_output_counterexample:
  "endOfLife (inputs circularScenario) = Recycling
   \<and> edge_values ''Recycling'' ''Recycled Materials'' (generateFlowData circularScenario)
       = [binary64 (85 / 100)]
   \<and> 85 / 100 * (9 / 10) * (quantity (inputs circularScenario) / 1000) + 8 / 100
       < binary64 (85 / 100)
   \<and> f_mul (binary64 (85 / 100))
         (f_mul (binary64 (9 / 10)) (f_div (quantity (inputs circularScenario)) 1000))
       + 8 / 100 < binary64 (85 / 100)"
  by code_simp

text \<open>
  Claim C2, with the output of Recycling as the code computes it. With
  \<open>endOfLife = recycling\<close> the edges out of Use Phase are exactly the edge to Recycling,
  of 0.9 * quantity/1000, and the edge to Waste, of 0.1 * quantity/1000; the only edge
  out of Recycling goes to Recycled Materials and carries 0.85 * quantity/1000; and these
  are the only edges into Recycling, Waste and Recycled Materials. With
  \<open>endOfLife = landfill\<close> the only edge out of Use Phase, and the only one into Waste,
  carries quantity/1000 to Waste, and no edge leaves or enters Recycling or enters
  Recycled Materials. The products are double products.
\<close>

theorem C2_end_of_life_flows:
  "(endOfLife (inputs s) = Recycling \<longrightarrow>
      edges_from ''Use Phase'' (generateFlowData s)
        = [\<lparr>flow_from = ''Use Phase'', flow_to = ''Recycling'',
            flow_value = f_mul (f_div (quantity (inputs s)) 1000) (binary64 (9 / 10)),
            flow_type = FlowCircular, icon = Some Recycle\<rparr>,
           \<lparr>flow_from = ''Use Phase'', flow_to = ''Waste'',
            flow_value = f_mul (f_div (quantity (inputs s)) 1000) (binary64 (1 / 10)),
            flow_type = FlowWaste, icon = None\<rparr>]
      \<and> edges_from ''Recycling'' (generateFlowData s)
        = [\<lparr>flow_from = ''Recycling'', flow_to = ''Recycled Materials'',
            flow_value = f_mul (f_div (quantity (inputs s)) 1000) (binary64 (85 / 100)),
            flow_type = FlowCircular, icon = Some Recycle\<rparr>]
      \<and> edges_to ''Recycling'' (generateFlowData s)
        = [\<lparr>flow_from = ''Use Phase'', flow_to = ''Recycling'',
            flow_value = f_mul (f_div (quantity (inputs s)) 1000) (binary64 (9 / 10)),
            flow_type = FlowCircular, icon = Some Recycle\<rparr>]
      \<and> edges_to ''Waste'' (generateFlowData s)
        = [\<lparr>flow_from = ''Use Phase'', flow_to = ''Waste'',
            flow_value = f_mul (f_div (quantity (inputs s)) 1000) (binary64 (1 / 10)),
            flow_type = FlowWaste, icon = None\<rparr>]
      \<and> edges_to ''Recycled Materials'' (generateFlowData s)
        = [\<lparr>flow_from = ''Recycling'', flow_to = ''Recycled Materials'',
            flow_value = f_mul (f_div (quantity (inputs s)) 1000) (binary64 (85 / 100)),
            flow_type = FlowCircular, icon = Some Recycle\<rparr>])
   \<and> (endOfLife (inputs s) = Landfill \<longrightarrow>
      edges_from ''Use Phase'' (generateFlowData s)
        = [\<lparr>flow_from = ''Use Phase'', flow_to = ''Waste'',
            flow_value = f_div (quantity (inputs s)) 1000,
            flow_type = FlowWaste, icon = None\<rparr>]
      \<and> edges_to ''Waste'' (generateFlowData s)
        = [\<lparr>flow_from = ''Use Phase'', flow_to = ''Waste'',
            flow_value = f_div (quantity (inputs s)) 1000,
            flow_type = FlowWaste, icon = None\<rparr>]
      \<and> edges_from ''Recycling'' (generateFlowData s) = []
      \<and> edges_to ''Recycling'' (generateFlowData s) = []
      \<and> edges_to ''Recycled Materials'' (generateFlowData s) = [])"
  by (cases "energySource (inputs s)"; cases "endOfLife (inputs s)";
      cases "materialSource (inputs s)")
     (simp_all add: generateFlowData_def edges_from_def edges_to_def Let_def
        energySource_string_def)

theorem C2_end_of_life_flows_witness:
  "endOfLife (inputs circularScenario) = Recycling
   \<and> map flow_to (edges_from ''Use Phase'' (generateFlowData circularScenario))
       = [''Recycling'', ''Waste'']
   \<and> map flow_to (edges_from ''Recycling'' (generateFlowData circularScenario))
       = [''Recycled Materials'']
   \<and> endOfLife (inputs conventionalScenario) = Landfill
   \<and> map flow_to (edges_from ''Use Phase'' (generateFlowData conventionalScenario))
       = [''Waste'']
   \<and> edges_from ''Recycling'' (generateFlowData conventionalScenario) = []"
proof -
  have h: "endOfLife (inputs circularScenario) = Recycling"
    "endOfLife (inputs conventionalScenario) = Landfill"
    by (simp_all add: conventionalScenario_def circularScenario_def defaultInputs_def)
  from C2_end_of_life_flows [of circularScenario]
    C2_end_of_life_flows [of conventionalScenario] h
  show ?thesis by simp
qed

section \<open>Properties of validation and submission\<close>

lemma validate_quantity:
  "quantity inp \<le> 0 \<Longrightarrow>
     map_of (fst (validateInputs inp)) ''quantity'' = Some ''Quantity must be greater than 0''
     \<and> \<not> snd (validateInputs inp)"
  by (simp add: validateInputs_def Let_def)

lemma validate_negative_distance:
  "transportDistance inp < 0 \<Longrightarrow>
     map_of (fst (validateInputs inp)) ''transportDistance''
       = Some ''Distance cannot be negative''
     \<and> \<not> snd (validateInputs inp)"
  by (simp add: validateInputs_def Let_def)

lemma validate_large_distance:
  "transportDistance inp > 10000 \<Longrightarrow>
     map_of (fst (validateInputs inp)) ''transportDistance''
       = Some ''Distance seems unrealistic (>10,000 km)''
     \<and> \<not> snd (validateInputs inp)"
  by (simp add: validateInputs_def Let_def)

lemma handleSubmit_invalid:
  "\<not> snd (validateInputs (form_inputs st)) \<Longrightarrow>
     onRunLCA_calls (handleSubmit st) = onRunLCA_calls st
     \<and> errors (handleSubmit st) = fst (validateInputs (form_inputs st))
     \<and> form_inputs (handleSubmit st) = form_inputs st
     \<and> toasts (handleSubmit st) = toasts st @
                 [\<lparr>title = ''Validation Error'',
                   description =
                     ''Please fix the input errors before running the analysis.'',
                   variant = Destructive\<rparr>]"
  by (cases "validateInputs (form_inputs st)") (simp add: handleSubmit_def Let_def)

text \<open>
  Claim C4. Submitting with quantity \<le> 0, with transport distance < 0 or with transport
  distance > 10000 does not call the run callback and leaves the matching inline message
  on the field; so quantity = 0 blocks the submission with the quantity message. Setting
  the quantity to a valid value afterwards removes the inline message.
\<close>

theorem C4_validation_blocks_run:
  "(quantity (form_inputs st) \<le> 0 \<longrightarrow>
      onRunLCA_calls (handleSubmit st) = onRunLCA_calls st
      \<and> inlineError (handleSubmit st) ''quantity'' = Some ''Quantity must be greater than 0'')
   \<and> (transportDistance (form_inputs st) < 0 \<longrightarrow>
      onRunLCA_calls (handleSubmit st) = onRunLCA_calls st
      \<and> inlineError (handleSubmit st) ''transportDistance''
          = Some ''Distance cannot be negative'')
   \<and> (transportDistance (form_inputs st) > 10000 \<longrightarrow>
      onRunLCA_calls (handleSubmit st) = onRunLCA_calls st
      \<and> inlineError (handleSubmit st) ''transportDistance''
          = Some ''Distance seems unrealistic (>10,000 km)'')
   \<and> (quantity (form_inputs st) \<le> 0 \<and> 0 < v \<longrightarrow>
      inlineError (updateInput (SetQuantity v) (handleSubmit st)) ''quantity'' = None
      \<and> quantity (form_inputs (updateInput (SetQuantity v) (handleSubmit st))) = v)"
proof (intro conjI impI)
  assume q: "quantity (form_inputs st) \<le> 0"
  from validate_quantity [OF q] handleSubmit_invalid [of st]
  show "onRunLCA_calls (handleSubmit st) = onRunLCA_calls st"
    and "inlineError (handleSubmit st) ''quantity'' = Some ''Quantity must be greater than 0''"
    by (simp_all add: inlineError_def truthy_def)
next
  assume d: "transportDistance (form_inputs st) < 0"
  from validate_negative_distance [OF d] handleSubmit_invalid [of st]
  show "onRunLCA_calls (handleSubmit st) = onRunLCA_calls st"
    and "inlineError (handleSubmit st) ''transportDistance''
          = Some ''Distance cannot be negative''"
    by (simp_all add: inlineError_def truthy_def)
next
  assume d: "transportDistance (form_inputs st) > 10000"
  from validate_large_distance [OF d] handleSubmit_invalid [of st]
  show "onRunLCA_calls (handleSubmit st) = onRunLCA_calls st"
    and "inlineError (handleSubmit st) ''transportDistance''
          = Some ''Distance seems unrealistic (>10,000 km)''"
    by (simp_all add: inlineError_def truthy_def)
next
  assume "quantity (form_inputs st) \<le> 0 \<and> 0 < v"
  then have q: "quantity (form_inputs st) \<le> 0"
    by simp
  from validate_quantity [OF q] handleSubmit_invalid [of st]
  have "map_of (errors (handleSubmit st)) ''quantity''
          = Some ''Quantity must be greater than 0''"
    by simp
  then show "inlineError (updateInput (SetQuantity v) (handleSubmit st)) ''quantity'' = None"
    by (simp add: updateInput_def Let_def inlineError_def truthy_def update_conv')
  show "quantity (form_inputs (updateInput (SetQuantity v) (handleSubmit st))) = v"
    by (simp add: updateInput_def Let_def)
qed

theorem C4_validation_witness:
  "quantity (form_inputs (updateInput (SetQuantity 0) initialForm)) \<le> 0
   \<and> onRunLCA_calls (handleSubmit (updateInput (SetQuantity 0) initialForm)) = 0
   \<and> inlineError (handleSubmit (updateInput (SetQuantity 0) initialForm)) ''quantity''
       = Some ''Quantity must be greater than 0''
   \<and> inlineError (updateInput (SetQuantity 100)
         (handleSubmit (updateInput (SetQuantity 0) initialForm))) ''quantity'' = None
   \<and> transportDistance (form_inputs (updateInput (SetTransportDistance (- 50)) initialForm))
       < 0
   \<and> inlineError (handleSubmit (updateInput (SetTransportDistance (- 50)) initialForm))
         ''transportDistance'' = Some ''Distance cannot be negative''
   \<and> transportDistance (form_inputs (updateInput (SetTransportDistance 10050) initialForm))
       > 10000
   \<and> inlineError (handleSubmit (updateInput (SetTransportDistance 10050) initialForm))
         ''transportDistance'' = Some ''Distance seems unrealistic (>10,000 km)''"
  using C4_validation_blocks_run [of "updateInput (SetQuantity 0) initialForm" 100]
    C4_validation_blocks_run [of "updateInput (SetTransportDistance (- 50)) initialForm" 100]
    C4_validation_blocks_run [of "updateInput (SetTransportDistance 10050) initialForm" 100]
  by (simp add: initialForm_def updateInput_def Let_def truthy_def defaultInputs_def)

section \<open>Properties of the report panel\<close>

lemma panel_Idle_iff:
  "panel st = Idle \<longleftrightarrow> \<not> isGenerating st \<and> \<not> reportGenerated st"
  by (simp add: panel_def)

lemma handleGenerateReport_effects:
  "handleGenerateReport Resolved =
     [SetIsGenerating True, AwaitFetch, AwaitTimeout 3000, SetReportGenerated True,
      ShowToast successToast, SetIsGenerating False]"
  "handleGenerateReport Rejected =
     [SetIsGenerating True, AwaitFetch, ConsoleLog ''Using mock report generation for demo'',
      AwaitTimeout 3000, SetReportGenerated True, ShowToast successToast,
      SetIsGenerating False]"
  by (simp_all add: handleGenerateReport_def tryBlock_def catchBlock_def finallyBlock_def)

lemma last_run_trace: "last (run_trace st es) = run_effects st es"
  unfolding run_effects_def
  by (induction es arbitrary: st) (auto simp: neq_Nil_conv elim: run_trace.elims)

text \<open>
  Claim C9. From the idle panel, the handler takes the panel through Idle, Generating and
  Generated, in this order and with nothing else, whether the network call resolves or
  rejects. The panel shows Generated only once the 3000 ms timer has been awaited; the
  handler ends with the panel Generated, the busy flag off and one notification, the
  success one, which is not of the destructive variant. The "Generate New Report" action
  then returns the panel to Idle.
\<close>

theorem C9_report_always_generated:
  "panel st = Idle \<longrightarrow>
     remdups_adj (map panel (run_trace st (handleGenerateReport outcome)))
       = [Idle, Generating, Generated]
     \<and> (\<forall>s' \<in> set (run_trace st (handleGenerateReport outcome)).
           panel s' = Generated \<longrightarrow> waited_ms s' = waited_ms st + 3000)
     \<and> panel (run_effects st (handleGenerateReport outcome)) = Generated
     \<and> \<not> isGenerating (run_effects st (handleGenerateReport outcome))
     \<and> waited_ms (run_effects st (handleGenerateReport outcome)) = waited_ms st + 3000
     \<and> report_toasts (run_effects st (handleGenerateReport outcome))
         = report_toasts st @ [successToast]
     \<and> variant successToast \<noteq> Destructive
     \<and> panel (generateNewReport (run_effects st (handleGenerateReport outcome))) = Idle"
proof (intro impI)
  assume "panel st = Idle"
  then have idle: "\<not> isGenerating st" "\<not> reportGenerated st"
    by (simp_all add: panel_Idle_iff)
  show "remdups_adj (map panel (run_trace st (handleGenerateReport outcome)))
       = [Idle, Generating, Generated]
     \<and> (\<forall>s' \<in> set (run_trace st (handleGenerateReport outcome)).
           panel s' = Generated \<longrightarrow> waited_ms s' = waited_ms st + 3000)
     \<and> panel (run_effects st (handleGenerateReport outcome)) = Generated
     \<and> \<not> isGenerating (run_effects st (handleGenerateReport outcome))
     \<and> waited_ms (run_effects st (handleGenerateReport outcome)) = waited_ms st + 3000
     \<and> report_toasts (run_effects st (handleGenerateReport outcome))
         = report_toasts st @ [successToast]
     \<and> variant successToast \<noteq> Destructive
     \<and> panel (generateNewReport (run_effects st (handleGenerateReport outcome))) = Idle"
    using idle
    by (cases outcome)
       (simp_all add: handleGenerateReport_effects run_effects_def panel_def
          generateNewReport_def successToast_def)
qed

theorem C9_report_witness:
  "panel initialReport = Idle
   \<and> map panel (run_trace initialReport (handleGenerateReport Rejected))
       = [Idle, Generating, Generating, Generating, Generating, Generated, Generated,
          Generated]
   \<and> panel (run_effects initialReport (handleGenerateReport Rejected)) = Generated
   \<and> panel (run_effects initialReport (handleGenerateReport Resolved)) = Generated"
  using C9_report_always_generated [of initialReport Rejected]
    C9_report_always_generated [of initialReport Resolved]
  by (simp add: initialReport_def panel_def handleGenerateReport_effects)

end
